theory Spec2Isabelle
  imports Main "HOL-Library.Word"
begin

chapter \<open>Model\<close>

section \<open>Coordinate model\<close>

text \<open>
  Go's \<^verbatim>\<open>uint64\<close> is a 64-bit word: addition, subtraction and multiplication wrap around.
  Go's \<^verbatim>\<open>int\<close> is taken to be 64 bits wide (a 64-bit platform); the conversion
  \<^verbatim>\<open>int(u)\<close> of a \<^verbatim>\<open>uint64\<close> reinterprets the bits as two's complement, and
  \<^verbatim>\<open>uint64(i)\<close> goes the other way.
\<close>

type_synonym u64 = "64 word"

definition go_int :: "u64 \<Rightarrow> int" where
  "go_int u = sint u"

definition go_uint64 :: "int \<Rightarrow> u64" where
  "go_uint64 i = word_of_int i"

text \<open>\<^verbatim>\<open>1 << z\<close> on \<^verbatim>\<open>uint64\<close>: a shift count of 64 or more gives 0.\<close>

definition shl1 :: "u64 \<Rightarrow> u64" where
  "shl1 z = push_bit (unat z) 1"

record TileCoord =
  X :: u64
  Y :: u64
  Zoom :: u64
  Tms :: bool
  Layer :: string

record MetaTileCoord =
  MinX :: u64
  MinY :: u64
  MaxX :: u64
  MaxY :: u64
  Zoom :: u64
  Tms :: bool
  Layer :: string

text \<open>A panic is a value: the function stops with it instead of returning.\<close>

datatype panic =
  InvalidMetatileCoordinates
  | ResultCountMismatch int u64
  | GetMetaCoordOnTileFetchRequest
  | GetCoordOnMetaTileFetchRequest

datatype 'a outcome = Returns 'a | Panics panic

text \<open>\<^verbatim>\<open>func (c *TileCoord) setTMS(tms bool)\<close>, returning the updated coordinate.\<close>

definition setTMS :: "bool \<Rightarrow> TileCoord \<Rightarrow> TileCoord" where
  "setTMS tms c =
     (if TileCoord.Tms c \<noteq> tms
      then c\<lparr>Y := shl1 (TileCoord.Zoom c) - Y c - 1, TileCoord.Tms := tms\<rparr>
      else c)"

text \<open>
  \<^verbatim>\<open>func (c *MetaTileCoord) setTMS(tms bool)\<close>: the three assignments are made in the
  source's order, the third being the swap.
\<close>

definition setTMS_meta :: "bool \<Rightarrow> MetaTileCoord \<Rightarrow> MetaTileCoord" where
  "setTMS_meta tms c =
     (if MetaTileCoord.Tms c \<noteq> tms
      then
        (let c1 = c\<lparr>MinY := shl1 (MetaTileCoord.Zoom c) - MinY c - 1\<rparr>;
             c2 = c1\<lparr>MaxY := shl1 (MetaTileCoord.Zoom c1) - MaxY c1 - 1\<rparr>;
             c3 = c2\<lparr>MinY := MaxY c2, MaxY := MinY c2\<rparr>
         in c3\<lparr>MetaTileCoord.Tms := tms\<rparr>)
      else c)"

definition XSize :: "MetaTileCoord \<Rightarrow> u64 outcome" where
  "XSize c =
     (if MaxX c < MinX c then Panics InvalidMetatileCoordinates
      else Returns (MaxX c - MinX c + 1))"

definition YSize :: "MetaTileCoord \<Rightarrow> u64 outcome" where
  "YSize c =
     (if MaxY c < MinY c then Panics InvalidMetatileCoordinates
      else Returns (MaxY c - MinY c + 1))"

definition Count :: "MetaTileCoord \<Rightarrow> u64 outcome" where
  "Count c =
     (case XSize c of
        Panics p \<Rightarrow> Panics p
      | Returns xSize \<Rightarrow>
          (case YSize c of
             Panics p \<Rightarrow> Panics p
           | Returns ySize \<Rightarrow> Returns (xSize * ySize)))"

text \<open>
  The source has the same pair of nested loops three times (in \<^verbatim>\<open>TileCoords\<close>,
  \<^verbatim>\<open>processRequestMeta\<close> and \<^verbatim>\<open>RenderMetaTile\<close>):
  \<^verbatim>\<open>for x := 0; x < int(xSize); x++ { for y := 0; y < int(ySize); y++ { ... } }\<close>
  where the body appends (or sends) one value that depends on \<^verbatim>\<open>x\<close> and \<^verbatim>\<open>y\<close>.
  \<open>loop_y\<close> is the inner loop from the current \<open>y\<close>, \<open>loop_x\<close> the outer loop from the
  current \<open>x\<close>; \<open>acc\<close> is what has been appended so far. The counters stay below
  \<open>2 ^ 63\<close>, because the bounds are values of \<^verbatim>\<open>int\<close>, so \<^verbatim>\<open>x++\<close> never overflows.
\<close>

function loop_y :: "int \<Rightarrow> int \<Rightarrow> int \<Rightarrow> (int \<Rightarrow> int \<Rightarrow> 'a) \<Rightarrow> 'a list \<Rightarrow> 'a list" where
  "loop_y ySize x y body acc =
     (if y < ySize then loop_y ySize x (y + 1) body (acc @ [body x y]) else acc)"
  by pat_completeness auto
termination
  by (relation "measure (\<lambda>(ySize, x, y, body, acc). nat (ySize - y))") auto

function loop_x :: "int \<Rightarrow> int \<Rightarrow> int \<Rightarrow> (int \<Rightarrow> int \<Rightarrow> 'a) \<Rightarrow> 'a list \<Rightarrow> 'a list" where
  "loop_x xSize ySize x body acc =
     (if x < xSize then loop_x xSize ySize (x + 1) body (loop_y ySize x 0 body acc) else acc)"
  by pat_completeness auto
termination
  by (relation "measure (\<lambda>(xSize, ySize, x, body, acc). nat (xSize - x))") auto

declare loop_y.simps [simp del] loop_x.simps [simp del]

text \<open>The coordinate built in the body of the loops, for the counters \<open>x\<close> and \<open>y\<close>.\<close>

definition tileAt :: "MetaTileCoord \<Rightarrow> int \<Rightarrow> int \<Rightarrow> TileCoord" where
  "tileAt c x y =
     \<lparr>X = MinX c + go_uint64 x, Y = MinY c + go_uint64 y,
      Zoom = MetaTileCoord.Zoom c, Tms = MetaTileCoord.Tms c, Layer = MetaTileCoord.Layer c\<rparr>"

definition TileCoords :: "MetaTileCoord \<Rightarrow> TileCoord list outcome" where
  "TileCoords c =
     (case XSize c of
        Panics p \<Rightarrow> Panics p
      | Returns xSize \<Rightarrow>
          (case YSize c of
             Panics p \<Rightarrow> Panics p
           | Returns ySize \<Rightarrow>
               Returns (loop_x (go_int xSize) (go_int ySize) 0 (tileAt c) [])))"

text \<open>
  The enumeration in the words of the specification: the outer loop over X from MinX to
  MaxX, the inner loop over Y from MinY to MaxY, each tile with the block's zoom, scheme
  and layer.
\<close>

definition column_major :: "MetaTileCoord \<Rightarrow> TileCoord list" where
  "column_major c =
     concat (map (\<lambda>x. map (\<lambda>y.
         \<lparr>X = of_nat x, Y = of_nat y,
          Zoom = MetaTileCoord.Zoom c, Tms = MetaTileCoord.Tms c, Layer = MetaTileCoord.Layer c\<rparr>)
       [unat (MinY c) ..< Suc (unat (MaxY c))])
       [unat (MinX c) ..< Suc (unat (MaxX c))])"

section \<open>Requests and results\<close>

text \<open>
  A Go \<^verbatim>\<open>error\<close> value; \<^verbatim>\<open>nil\<close> is \<open>None\<close> of \<open>error option\<close>. \<open>ErrNoRows\<close> is
  \<^verbatim>\<open>sql.ErrNoRows\<close>, which the cache compares against. A \<^verbatim>\<open>[]byte\<close> is a list of
  bytes, \<^verbatim>\<open>nil\<close> being \<open>None\<close> (an empty slice that is not \<^verbatim>\<open>nil\<close> is \<open>Some []\<close>).
  A channel is known by its identity.
\<close>

datatype error = ErrNoRows | Err string

type_synonym bytes = "8 word list"

type_synonym chan = nat

record TileFetchResult =
  Coord :: TileCoord
  BlobPNG :: "bytes option"
  Error :: "error option"

record TileFetchRequest =
  Coord :: TileCoord
  OutChan :: chan

record MetaTileFetchRequest =
  Coord :: MetaTileCoord
  OutChan :: chan

text \<open>The interface \<^verbatim>\<open>FetchRequest\<close> with its two implementations.\<close>

datatype FetchRequest =
  TileRequest TileFetchRequest
  | MetaRequest MetaTileFetchRequest

fun IsMetaTile :: "FetchRequest \<Rightarrow> bool" where
  "IsMetaTile (TileRequest r) = False"
| "IsMetaTile (MetaRequest r) = True"

fun GetCoord :: "FetchRequest \<Rightarrow> TileCoord outcome" where
  "GetCoord (TileRequest r) = Returns (TileFetchRequest.Coord r)"
| "GetCoord (MetaRequest r) = Panics GetCoordOnMetaTileFetchRequest"

fun GetLayer :: "FetchRequest \<Rightarrow> string" where
  "GetLayer (TileRequest r) = TileCoord.Layer (TileFetchRequest.Coord r)"
| "GetLayer (MetaRequest r) = MetaTileCoord.Layer (MetaTileFetchRequest.Coord r)"

fun GetMetaCoord :: "FetchRequest \<Rightarrow> MetaTileCoord outcome" where
  "GetMetaCoord (TileRequest r) = Panics GetMetaCoordOnTileFetchRequest"
| "GetMetaCoord (MetaRequest r) = Returns (MetaTileFetchRequest.Coord r)"

fun GetOutChan :: "FetchRequest \<Rightarrow> chan" where
  "GetOutChan (TileRequest r) = TileFetchRequest.OutChan r"
| "GetOutChan (MetaRequest r) = MetaTileFetchRequest.OutChan r"

section \<open>The tile renderer\<close>

text \<open>
  What a \<^verbatim>\<open>TileRenderer\<close> calls outside the repository is a parameter of the model, with
  the result type of the Go function:
  \<^item> \<open>renderTileInternal\<close> is the method of that name: floating-point geometry followed by
    calls into the mapnik engine, ending in \<^verbatim>\<open>RenderToMemoryPng\<close>, whose pair
    \<^verbatim>\<open>(blob, err)\<close> it returns;
  \<^item> \<open>pngDecode\<close> is \<^verbatim>\<open>png.Decode\<close> on the rendered blob;
  \<^item> \<open>boundsMin\<close> is \<^verbatim>\<open>img.Bounds().Min\<close>, \<open>isSubImager\<close> the type assertion
    \<^verbatim>\<open>img.(SubImager)\<close>, \<open>SubImage\<close> the method of that name on a rectangle
    \<open>(minX, minY, maxX, maxY)\<close>;
  \<^item> \<open>pngEncode\<close> is \<^verbatim>\<open>png.Encode(&buf, subimg)\<close> on a fresh buffer: the pair of
    \<^verbatim>\<open>buf.Bytes()\<close> afterwards (\<^verbatim>\<open>nil\<close> when nothing was written) and the error.
\<close>

record 'img TileRenderer =
  renderTileInternal ::
    "u64 \<Rightarrow> u64 \<Rightarrow> u64 \<Rightarrow> u64 \<Rightarrow> u64 \<Rightarrow> u64 \<Rightarrow> u64 \<Rightarrow> u64 \<Rightarrow> bytes option \<times> error option"
  pngDecode :: "bytes option \<Rightarrow> error + 'img"
  boundsMin :: "'img \<Rightarrow> int \<times> int"
  isSubImager :: "'img \<Rightarrow> bool"
  SubImage :: "'img \<Rightarrow> int \<times> int \<times> int \<times> int \<Rightarrow> 'img"
  pngEncode :: "'img \<Rightarrow> bytes option \<times> error option"

text \<open>Arithmetic on \<^verbatim>\<open>int\<close> wraps around at 64 bits.\<close>

definition wrap_int :: "int \<Rightarrow> int" where
  "wrap_int i = sint (word_of_int i :: u64)"

definition RenderTileZXY :: "'img TileRenderer \<Rightarrow> u64 \<Rightarrow> u64 \<Rightarrow> u64 \<Rightarrow> bytes option \<times> error option" where
  "RenderTileZXY t zoom x y = renderTileInternal t zoom x y 256 256 1 1 128"

definition RenderTile :: "'img TileRenderer \<Rightarrow> TileCoord \<Rightarrow> bytes option \<times> error option" where
  "RenderTile t c0 =
     (let c = setTMS False c0
      in RenderTileZXY t (TileCoord.Zoom c) (X c) (Y c))"

text \<open>
  The body of the slicing loop of \<^verbatim>\<open>RenderMetaTile\<close> for the counters \<open>x\<close> and \<open>y\<close>: the
  result it appends.
\<close>

definition sliceAt :: "'img TileRenderer \<Rightarrow> MetaTileCoord \<Rightarrow> 'img \<Rightarrow> int \<Rightarrow> int \<Rightarrow> int \<Rightarrow> int \<Rightarrow> TileFetchResult" where
  "sliceAt t c simg bx by x y =
     (let xTileSize = 256; yTileSize = 256;
          startX = wrap_int (x * xTileSize);
          startY = wrap_int (y * yTileSize);
          endX = wrap_int (wrap_int (x + 1) * xTileSize);
          endY = wrap_int (wrap_int (y + 1) * yTileSize);
          subimg = SubImage t simg
            (wrap_int (startX + bx), wrap_int (startY + by),
             wrap_int (endX + bx), wrap_int (endY + by));
          (buf, err) = pngEncode t subimg
      in \<lparr>TileFetchResult.Coord = tileAt c x y, BlobPNG = buf, Error = err\<rparr>)"

text \<open>
  \<^verbatim>\<open>RenderMetaTile\<close> returns \<^verbatim>\<open>(nil, err)\<close> (here \<open>Inl err\<close>) or \<^verbatim>\<open>(results, nil)\<close>
  (here \<open>Inr results\<close>). The receiver is passed by value, so \<^verbatim>\<open>setTMS\<close> changes a copy.
\<close>

definition RenderMetaTile :: "'img TileRenderer \<Rightarrow> MetaTileCoord \<Rightarrow> (error + TileFetchResult list) outcome" where
  "RenderMetaTile t c0 =
     (let c = setTMS_meta False c0 in
      if MaxX c < MinX c \<or> MaxY c < MinY c
      then Returns (Inl (Err ''Invalid metatile coordinates''))
      else
        (case XSize c of
           Panics p \<Rightarrow> Panics p
         | Returns xSize \<Rightarrow>
        (case YSize c of
           Panics p \<Rightarrow> Panics p
         | Returns ySize \<Rightarrow>
        (case renderTileInternal t (MetaTileCoord.Zoom c) (MinX c) (MinY c) 256 256 xSize ySize 128 of
           (blob, Some err) \<Rightarrow> Returns (Inl err)
         | (blob, None) \<Rightarrow>
             if xSize = 1 \<and> ySize = 1
             then Returns (Inr
               [\<lparr>TileFetchResult.Coord = \<lparr>X = MinX c, Y = MinY c, Zoom = MetaTileCoord.Zoom c,
                           Tms = MetaTileCoord.Tms c, Layer = MetaTileCoord.Layer c\<rparr>,
                 BlobPNG = blob, Error = None\<rparr>])
             else
               (case pngDecode t blob of
                  Inl err \<Rightarrow> Returns (Inl err)
                | Inr img \<Rightarrow>
                    (let (bx, by) = boundsMin t img in
                     if \<not> isSubImager t img
                     then Returns (Inl (Err ''Decoded image type does not have SubImage method''))
                     else Returns (Inr
                       (loop_x (go_int xSize) (go_int ySize) 0 (sliceAt t c img bx by) []))))))))"

text \<open>
  A worker writes its results to the request's reply channel. The model returns the
  values written, in order, together with the panic that ended the call, if any.
\<close>

definition processRequestTile :: "'img TileRenderer \<Rightarrow> TileCoord \<Rightarrow> TileFetchResult list \<times> panic option" where
  "processRequestTile t coord =
     (let result = \<lparr>TileFetchResult.Coord = coord, BlobPNG = None, Error = None\<rparr>;
          (blob, err) = RenderTile t coord;
          result = result\<lparr>BlobPNG := blob\<rparr>;
          result = (if err \<noteq> None then result\<lparr>BlobPNG := None, Error := err\<rparr> else result)
      in ([result], None))"

text \<open>The result written for the counters \<open>x\<close> and \<open>y\<close> when the block render failed.\<close>

definition errorAt :: "MetaTileCoord \<Rightarrow> error \<Rightarrow> int \<Rightarrow> int \<Rightarrow> TileFetchResult" where
  "errorAt coord err x y = \<lparr>TileFetchResult.Coord = tileAt coord x y, BlobPNG = None, Error = Some err\<rparr>"

definition processRequestMeta :: "'img TileRenderer \<Rightarrow> MetaTileCoord \<Rightarrow> TileFetchResult list \<times> panic option" where
  "processRequestMeta t coord =
     (case Count coord of
        Panics p \<Rightarrow> ([], Some p)
      | Returns resultCount \<Rightarrow>
     (case RenderMetaTile t coord of
        Panics p \<Rightarrow> ([], Some p)
      | Returns (Inl err) \<Rightarrow>
          (case XSize coord of
             Panics p \<Rightarrow> ([], Some p)
           | Returns xSize \<Rightarrow>
          (case YSize coord of
             Panics p \<Rightarrow> ([], Some p)
           | Returns ySize \<Rightarrow>
               (loop_x (go_int xSize) (go_int ySize) 0 (errorAt coord err) [], None)))
      | Returns (Inr results) \<Rightarrow>
          if int (length results) \<noteq> go_int resultCount
          then ([], Some (ResultCountMismatch (int (length results)) resultCount))
          else (results, None)))"

definition ProcessRequest :: "'img TileRenderer \<Rightarrow> FetchRequest \<Rightarrow> TileFetchResult list \<times> panic option" where
  "ProcessRequest t request =
     (if IsMetaTile request
      then (case GetMetaCoord request of
              Panics p \<Rightarrow> ([], Some p)
            | Returns c \<Rightarrow> processRequestMeta t c)
      else (case GetCoord request of
              Panics p \<Rightarrow> ([], Some p)
            | Returns c \<Rightarrow> processRequestTile t c))"

section \<open>Example renderers\<close>

text \<open>
  Two renderers over images without content, used at concrete inputs below: one whose
  engine fails on every block, one whose engine, decoder and encoder always succeed.
\<close>

definition failing_renderer :: "unit TileRenderer" where
  "failing_renderer =
     \<lparr>renderTileInternal = (\<lambda>zoom x y xTileSize yTileSize xMetaTile yMetaTile bufferSize.
         (None, Some (Err ''render failed''))),
      pngDecode = (\<lambda>blob. Inr ()),
      boundsMin = (\<lambda>img. (0, 0)),
      isSubImager = (\<lambda>img. True),
      SubImage = (\<lambda>img r. img),
      pngEncode = (\<lambda>img. (Some [0x89, 0x50], None))\<rparr>"

definition blank_renderer :: "unit TileRenderer" where
  "blank_renderer =
     \<lparr>renderTileInternal = (\<lambda>zoom x y xTileSize yTileSize xMetaTile yMetaTile bufferSize.
         (Some [0x89, 0x50], None)),
      pngDecode = (\<lambda>blob. Inr ()),
      boundsMin = (\<lambda>img. (0, 0)),
      isSubImager = (\<lambda>img. True),
      SubImage = (\<lambda>img r. img),
      pngEncode = (\<lambda>img. (Some [0x89, 0x50], None))\<rparr>"

section \<open>The tile cache\<close>

text \<open>
  The SQLite database behind a \<^verbatim>\<open>TileDb\<close>, as the schema of \<^verbatim>\<open>NewTileDb\<close> creates it:
  \<^item> \<open>layers\<close>: the rows \<open>(layer_name, rowid)\<close> of table \<^verbatim>\<open>layers\<close>, whose primary key is
    the name;
  \<^item> \<open>layered_tiles\<close>: table \<^verbatim>\<open>layered_tiles\<close>, a map from its primary key
    \<open>(layer_id, zoom_level, tile_column, tile_row)\<close> to the checksum;
  \<^item> \<open>tile_blobs\<close>: the rows \<open>(checksum, tile_data)\<close> of table \<^verbatim>\<open>tile_blobs\<close>, in insertion
    order. The table is created as \<^verbatim>\<open>tile_blobs (checksum text, tile_data blob)\<close>, with no
    primary key and no unique constraint, so it is a bag of rows and
    \<^verbatim>\<open>REPLACE INTO tile_blobs\<close> adds a row. A \<^verbatim>\<open>nil\<close> slice is stored as NULL (\<open>None\<close>);
  \<^item> \<open>layerIds\<close>: the field \<^verbatim>\<open>m.layerIds\<close>, the copy of \<open>layers\<close> held in memory.
  The metadata table and the view play no part in fetch and insert and are left out;
  SQLite does not enforce the foreign key declared on \<^verbatim>\<open>layered_tiles\<close> unless asked to.

  Every call to the database can fail in the driver. \<open>driver_errors\<close> scripts this: each
  database call takes the head of the list, and fails with it when it is an error; on the
  empty list every call succeeds.
\<close>

record TileDb =
  layers :: "(string \<times> int) list"
  layered_tiles :: "int \<times> u64 \<times> u64 \<times> u64 \<rightharpoonup> string"
  tile_blobs :: "(string \<times> bytes option) list"
  layerIds :: "string \<rightharpoonup> int"
  driver_errors :: "error option list"

text \<open>\<^verbatim>\<open>log.Fatal\<close> ends the process: a call either completes or dies with the error.\<close>

datatype 'a run = Done 'a | Fatal error

definition next_driver_error :: "TileDb \<Rightarrow> error option \<times> TileDb" where
  "next_driver_error db =
     (case driver_errors db of
        [] \<Rightarrow> (None, db)
      | e # es \<Rightarrow> (e, db\<lparr>driver_errors := es\<rparr>))"

text \<open>
  \<^verbatim>\<open>QueryRow("SELECT 1 FROM tile_blobs WHERE checksum=?", s).Scan(&dummy)\<close>: the error
  returned, \<^verbatim>\<open>sql.ErrNoRows\<close> when no row has the checksum.
\<close>

definition query_blob_exists :: "string \<Rightarrow> TileDb \<Rightarrow> error option \<times> TileDb" where
  "query_blob_exists s db =
     (case next_driver_error db of
        (Some e, db') \<Rightarrow> (Some e, db')
      | (None, db') \<Rightarrow>
          (if s \<in> set (map fst (tile_blobs db')) then None else Some ErrNoRows, db'))"

text \<open>\<^verbatim>\<open>Exec("REPLACE INTO tile_blobs VALUES(?,?)", s, data)\<close>.\<close>

definition exec_replace_blob :: "string \<Rightarrow> bytes option \<Rightarrow> TileDb \<Rightarrow> error option \<times> TileDb" where
  "exec_replace_blob s data db =
     (case next_driver_error db of
        (Some e, db') \<Rightarrow> (Some e, db')
      | (None, db') \<Rightarrow> (None, db'\<lparr>tile_blobs := tile_blobs db' @ [(s, data)]\<rparr>))"

text \<open>
  \<^verbatim>\<open>Exec("INSERT OR IGNORE INTO layers(layer_name) VALUES(?)", layer)\<close>: a new row gets
  the rowid after the largest one in use.
\<close>

definition exec_insert_layer :: "string \<Rightarrow> TileDb \<Rightarrow> error option \<times> TileDb" where
  "exec_insert_layer layer db =
     (case next_driver_error db of
        (Some e, db') \<Rightarrow> (Some e, db')
      | (None, db') \<Rightarrow>
          (None,
           if layer \<in> set (map fst (layers db')) then db'
           else db'\<lparr>layers := layers db' @ [(layer, foldr max (map snd (layers db')) 0 + 1)]\<rparr>))"

text \<open>
  \<^verbatim>\<open>Exec("REPLACE INTO layered_tiles VALUES(?, ?, ?, ?, ?)", layerID, z, x, y, s)\<close>: the
  row with this primary key is replaced.
\<close>

definition exec_replace_tile :: "int \<times> u64 \<times> u64 \<times> u64 \<Rightarrow> string \<Rightarrow> TileDb \<Rightarrow> error option \<times> TileDb" where
  "exec_replace_tile key s db =
     (case next_driver_error db of
        (Some e, db') \<Rightarrow> (Some e, db')
      | (None, db') \<Rightarrow> (None, db'\<lparr>layered_tiles := (layered_tiles db')(key \<mapsto> s)\<rparr>))"

text \<open>
  The query of \<^verbatim>\<open>fetch\<close>, with \<^verbatim>\<open>Scan(&blob)\<close>: the \<^verbatim>\<open>tile_data\<close> of the first row of
  \<^verbatim>\<open>tile_blobs\<close> whose checksum is the one the tile record of the layer's rowid, zoom,
  column and row holds. A scalar subquery without a row is NULL, and no checksum equals
  NULL: with no such layer, no tile record, or no blob row of that checksum, the query
  has no row and \<^verbatim>\<open>Scan\<close> returns \<^verbatim>\<open>sql.ErrNoRows\<close>.
\<close>

definition query_tile_data :: "u64 \<Rightarrow> u64 \<Rightarrow> u64 \<Rightarrow> string \<Rightarrow> TileDb \<Rightarrow> error option \<times> bytes option \<times> TileDb" where
  "query_tile_data zoom x y l db =
     (case next_driver_error db of
        (Some e, db') \<Rightarrow> (Some e, None, db')
      | (None, db') \<Rightarrow>
          (case (case map_of (layers db') l of
                   None \<Rightarrow> None
                 | Some layer_id \<Rightarrow> layered_tiles db' (layer_id, zoom, x, y)) of
             None \<Rightarrow> (Some ErrNoRows, None, db')
           | Some checksum \<Rightarrow>
               (case filter (\<lambda>row. fst row = checksum) (tile_blobs db') of
                  [] \<Rightarrow> (Some ErrNoRows, None, db')
                | row # rows \<Rightarrow> (None, snd row, db'))))"

text \<open>
  \<^verbatim>\<open>readLayers\<close>: a failing query ends the process; otherwise the rows are copied, in
  order, into a new map.
\<close>

definition readLayers :: "TileDb \<Rightarrow> TileDb run" where
  "readLayers db =
     (case next_driver_error db of
        (Some e, db') \<Rightarrow> Fatal e
      | (None, db') \<Rightarrow>
          Done (db'\<lparr>layerIds := fold (\<lambda>(s, i) ids. ids(s \<mapsto> i)) (layers db') Map.empty\<rparr>))"

text \<open>
  \<^verbatim>\<open>ensureLayer\<close>. Between its check under the read lock and its check under the write
  lock another goroutine may have added the layer; in this sequential model the second
  check sees what the first one saw. A failing \<^verbatim>\<open>INSERT\<close> is logged and the layers are
  read again all the same.
\<close>

definition ensureLayer :: "string \<Rightarrow> TileDb \<Rightarrow> TileDb run" where
  "ensureLayer layer db =
     (if layerIds db layer = None
      then
        (if layerIds db layer \<noteq> None then Done db
         else (let (err, db1) = exec_insert_layer layer db in readLayers db1))
      else Done db)"

text \<open>\<^verbatim>\<open>m.layerIds[l]\<close>: a missing key reads as 0.\<close>

definition layerId :: "TileDb \<Rightarrow> string \<Rightarrow> int" where
  "layerId db l = (case layerIds db l of None \<Rightarrow> 0 | Some i \<Rightarrow> i)"

text \<open>The bytes a hash is computed from: a \<^verbatim>\<open>nil\<close> slice has none.\<close>

definition blob_bytes :: "bytes option \<Rightarrow> bytes" where
  "blob_bytes b = (case b of None \<Rightarrow> [] | Some bs \<Rightarrow> bs)"

text \<open>
  The last two statements of \<^verbatim>\<open>insert\<close>, reached when the blob is in the table:
  \<^verbatim>\<open>ensureLayer\<close> and the replacement of the tile record, whose error is only logged.
\<close>

definition insert_tile_record :: "string \<Rightarrow> u64 \<Rightarrow> u64 \<Rightarrow> u64 \<Rightarrow> string \<Rightarrow> TileDb \<Rightarrow> TileDb run" where
  "insert_tile_record l z x y s db =
     (case ensureLayer l db of
        Fatal e \<Rightarrow> Fatal e
      | Done db1 \<Rightarrow>
          (let (err, db2) = exec_replace_tile (layerId db1 l, z, x, y) s db1 in Done db2))"

text \<open>
  \<^verbatim>\<open>func (m *TileDb) insert(i TileFetchResult)\<close>, under the write lock. \<open>md5hex\<close> is the
  lower-case hexadecimal MD5 digest, \<^verbatim>\<open>fmt.Sprintf("%x", h.Sum(nil))\<close>, a parameter of the
  model. The \<^verbatim>\<open>Write\<close> of a \<^verbatim>\<open>hash.Hash\<close> never returns an error, so that branch of
  the source is never taken. The argument is a copy: \<^verbatim>\<open>setTMS\<close> changes the copy.
\<close>

definition TileDb_insert :: "(bytes \<Rightarrow> string) \<Rightarrow> TileFetchResult \<Rightarrow> TileDb \<Rightarrow> TileDb run" where
  "TileDb_insert md5hex i db =
     (let c = setTMS True (TileFetchResult.Coord i);
          x = X c; y = Y c; z = TileCoord.Zoom c; l = TileCoord.Layer c;
          l = (if l = [] then ''default'' else l);
          s = md5hex (blob_bytes (BlobPNG i));
          (err, db1) = query_blob_exists s db
      in if err = Some ErrNoRows then
           (case exec_replace_blob s (BlobPNG i) db1 of
              (Some e, db2) \<Rightarrow> Done db2
            | (None, db2) \<Rightarrow> insert_tile_record l z x y s db2)
         else if err \<noteq> None then Done db1
         else insert_tile_record l z x y s db1)"

text \<open>
  \<^verbatim>\<open>func (m *TileDb) fetch(r TileFetchRequest)\<close>, under the read lock: the result it
  writes to \<^verbatim>\<open>r.OutChan\<close>, and the database afterwards. The result is built from
  \<^verbatim>\<open>r.Coord\<close> after \<^verbatim>\<open>setTMS(true)\<close>.
\<close>

definition TileDb_fetch :: "TileFetchRequest \<Rightarrow> TileDb \<Rightarrow> TileFetchResult \<times> TileDb" where
  "TileDb_fetch r db =
     (let c = setTMS True (TileFetchRequest.Coord r);
          zoom = TileCoord.Zoom c; x = X c; y = Y c; l = TileCoord.Layer c;
          l = (if l = [] then ''default'' else l);
          result = \<lparr>TileFetchResult.Coord = c, BlobPNG = None, Error = None\<rparr>;
          (err, blob, db1) = query_tile_data zoom x y l db
      in if err = Some ErrNoRows then (result\<lparr>BlobPNG := None\<rparr>, db1)
         else if err \<noteq> None then (result\<lparr>Error := err\<rparr>, db1)
         else (result\<lparr>BlobPNG := blob\<rparr>, db1))"

subsection \<open>Batch insert\<close>

text \<open>
  A \<^verbatim>\<open>batchTile\<close> is \<open>(layerID, z, x, y, s)\<close>, a \<^verbatim>\<open>batchBlob\<close> is \<open>(checksum, data)\<close>.
  \<^verbatim>\<open>Prepare\<close> of a multi-row statement fails when there is no row (\<^verbatim>\<open>VALUES;\<close> is a
  syntax error) and when it has more than 999 variables, the limit the source's comment
  names.
\<close>

type_synonym batchTile = "int \<times> u64 \<times> u64 \<times> u64 \<times> string"

type_synonym batchBlob = "string \<times> bytes option"

definition prepare_rows :: "nat \<Rightarrow> nat \<Rightarrow> TileDb \<Rightarrow> error option \<times> TileDb" where
  "prepare_rows columns rows db =
     (case next_driver_error db of
        (Some e, db') \<Rightarrow> (Some e, db')
      | (None, db') \<Rightarrow>
          (if rows = 0 then Some (Err ''syntax error'')
           else if 999 < columns * rows then Some (Err ''too many SQL variables'')
           else None, db'))"

definition exec_replace_blobs :: "batchBlob list \<Rightarrow> TileDb \<Rightarrow> error option \<times> TileDb" where
  "exec_replace_blobs blobs db =
     (case next_driver_error db of
        (Some e, db') \<Rightarrow> (Some e, db')
      | (None, db') \<Rightarrow> (None, db'\<lparr>tile_blobs := tile_blobs db' @ blobs\<rparr>))"

definition exec_replace_tiles :: "batchTile list \<Rightarrow> TileDb \<Rightarrow> error option \<times> TileDb" where
  "exec_replace_tiles tiles db =
     (case next_driver_error db of
        (Some e, db') \<Rightarrow> (Some e, db')
      | (None, db') \<Rightarrow>
          (None,
           db'\<lparr>layered_tiles :=
             fold (\<lambda>(layerID, z, x, y, s) t. t((layerID, z, x, y) \<mapsto> s)) tiles (layered_tiles db')\<rparr>))"

text \<open>
  The goroutine started for one element of \<^verbatim>\<open>inserts\<close>: it converts the element's
  coordinate in place, appends to \<^verbatim>\<open>tiles\<close>, and appends to \<^verbatim>\<open>blobs\<close> when no row of
  \<^verbatim>\<open>tile_blobs\<close> has the checksum. The state is the database, \<^verbatim>\<open>tiles\<close>, \<^verbatim>\<open>blobs\<close>
  and the elements converted so far.
\<close>

definition batch_item ::
  "(bytes \<Rightarrow> string) \<Rightarrow> TileFetchResult
    \<Rightarrow> TileDb \<times> batchTile list \<times> batchBlob list \<times> TileFetchResult list
    \<Rightarrow> (TileDb \<times> batchTile list \<times> batchBlob list \<times> TileFetchResult list) run" where
  "batch_item md5hex i0 st =
     (let (db, tiles, blobs, done) = st;
          i = i0\<lparr>TileFetchResult.Coord := setTMS True (TileFetchResult.Coord i0)\<rparr>;
          x = X (TileFetchResult.Coord i); y = Y (TileFetchResult.Coord i);
          z = TileCoord.Zoom (TileFetchResult.Coord i); l = TileCoord.Layer (TileFetchResult.Coord i);
          l = (if l = [] then ''default'' else l)
      in case ensureLayer l db of
           Fatal e \<Rightarrow> Fatal e
         | Done db1 \<Rightarrow>
             (let s = md5hex (blob_bytes (BlobPNG i));
                  tiles = tiles @ [(layerId db1 l, z, x, y, s)];
                  (err, db2) = query_blob_exists s db1
              in if err = Some ErrNoRows
                 then Done (db2, tiles, blobs @ [(s, BlobPNG i)], done @ [i])
                 else Done (db2, tiles, blobs, done @ [i])))"

text \<open>
  The goroutines of \<^verbatim>\<open>BatchInsert\<close> run concurrently and all of them finish before the
  first statement of the batch is executed. The model runs them one after the other in
  the order of the list; another schedule is this one on a permutation of the list.
\<close>

fun batch_items ::
  "(bytes \<Rightarrow> string) \<Rightarrow> TileFetchResult list
    \<Rightarrow> TileDb \<times> batchTile list \<times> batchBlob list \<times> TileFetchResult list
    \<Rightarrow> (TileDb \<times> batchTile list \<times> batchBlob list \<times> TileFetchResult list) run" where
  "batch_items md5hex [] st = Done st"
| "batch_items md5hex (i # inserts) st =
     (case batch_item md5hex i st of
        Fatal e \<Rightarrow> Fatal e
      | Done st' \<Rightarrow> batch_items md5hex inserts st')"

text \<open>The statements of \<^verbatim>\<open>BatchInsert\<close> for the tile records, after those for the blobs.\<close>

definition batch_tiles :: "batchTile list \<Rightarrow> TileDb \<Rightarrow> TileDb" where
  "batch_tiles tiles db =
     (case prepare_rows 5 (length tiles) db of
        (Some e, db1) \<Rightarrow> db1
      | (None, db1) \<Rightarrow> (let (err, db2) = exec_replace_tiles tiles db1 in db2))"

text \<open>
  \<^verbatim>\<open>func (m *TileDb) BatchInsert(inserts []TileFetchResult)\<close>, under the write lock: the
  slice as the call leaves it, and the database.
\<close>

definition TileDb_BatchInsert ::
  "(bytes \<Rightarrow> string) \<Rightarrow> TileFetchResult list \<Rightarrow> TileDb \<Rightarrow> (TileFetchResult list \<times> TileDb) run" where
  "TileDb_BatchInsert md5hex inserts db =
     (case batch_items md5hex inserts (db, [], [], []) of
        Fatal e \<Rightarrow> Fatal e
      | Done (db1, tiles, blobs, inserts') \<Rightarrow>
          if 0 < length blobs then
            (case prepare_rows 2 (length blobs) db1 of
               (Some e, db2) \<Rightarrow> Done (inserts', db2)
             | (None, db2) \<Rightarrow>
                 (case exec_replace_blobs blobs db2 of
                    (Some e, db3) \<Rightarrow> Done (inserts', db3)
                  | (None, db3) \<Rightarrow> Done (inserts', batch_tiles tiles db3)))
          else Done (inserts', batch_tiles tiles db1))"

text \<open>
  The database as \<^verbatim>\<open>NewTileDb\<close> leaves a new file: the layer \<^verbatim>\<open>default\<close> with rowid 1,
  no tile, no blob.
\<close>

definition new_TileDb :: TileDb where
  "new_TileDb =
     \<lparr>layers = [(''default'', 1)], layered_tiles = Map.empty, tile_blobs = [],
      layerIds = [''default'' \<mapsto> 1], driver_errors = []\<rparr>"

section \<open>Example databases\<close>

text \<open>
  A database whose tile record for layer \<^verbatim>\<open>default\<close>, zoom 1, column 0, row 1 names a
  checksum that no row of \<^verbatim>\<open>tile_blobs\<close> has.
\<close>

definition dangling_TileDb :: TileDb where
  "dangling_TileDb = new_TileDb\<lparr>layered_tiles := [(1, 1, 0, 1) \<mapsto> ''c0ffee'']\<rparr>"

text \<open>
  A stand-in for the MD5 digest at concrete inputs: the hexadecimal digits of the bytes
  themselves.
\<close>

definition toy_md5hex :: "bytes \<Rightarrow> string" where
  "toy_md5hex bs =
     concat (map (\<lambda>b. [''0123456789abcdef'' ! (unat b div 16),
                         ''0123456789abcdef'' ! (unat b mod 16)]) bs)"

section \<open>The layer multiplexer\<close>

text \<open>
  \<^verbatim>\<open>layerChans\<close> maps a layer name to the request channel of its renderers. What a call
  does to the world outside is returned as a list of effects, in order: a send on a
  channel, or a line in the log.
\<close>

record LayerMultiplex =
  layerChans :: "string \<rightharpoonup> chan"
  numRenderers :: int

datatype mux_effect =
  ChanSend chan FetchRequest
  | LogPrintln string string

definition AddSource :: "string \<Rightarrow> chan \<Rightarrow> LayerMultiplex \<Rightarrow> LayerMultiplex" where
  "AddSource name fetchChan l = l\<lparr>layerChans := (layerChans l)(name \<mapsto> fetchChan)\<rparr>"

definition SubmitRequest :: "LayerMultiplex \<Rightarrow> FetchRequest \<Rightarrow> mux_effect list \<times> bool" where
  "SubmitRequest l r =
     (case layerChans l (GetLayer r) of
        Some c \<Rightarrow> ([ChanSend c r], True)
      | None \<Rightarrow> ([LogPrintln ''No such layer'' (GetLayer r)], False))"

text \<open>
  The goroutines that receive from the request channels are the environment of the
  multiplexer: \<open>workers c r\<close> is what the receivers of channel \<open>c\<close> write to the reply
  channel of the request \<open>r\<close> they are sent (for the renderers that
  \<^verbatim>\<open>CreateRenderer\<close> starts, the results \<open>ProcessRequest\<close> writes). \<open>replies_to\<close> is
  everything written to reply channels because of a list of effects, each result with
  the channel it is written to; \<open>first_reply\<close> is what a receive on a channel gets, if
  anything is ever written to it.
\<close>

definition replies_to ::
  "(chan \<Rightarrow> FetchRequest \<Rightarrow> TileFetchResult list) \<Rightarrow> mux_effect list \<Rightarrow> (chan \<times> TileFetchResult) list" where
  "replies_to workers effects =
     concat (map (\<lambda>e. case e of
                        ChanSend c r \<Rightarrow> map (Pair (GetOutChan r)) (workers c r)
                      | LogPrintln a b \<Rightarrow> []) effects)"

definition first_reply :: "chan \<Rightarrow> (chan \<times> TileFetchResult) list \<Rightarrow> TileFetchResult option" where
  "first_reply ch replies =
     (case filter (\<lambda>reply. fst reply = ch) replies of
        [] \<Rightarrow> None
      | reply # later \<Rightarrow> Some (snd reply))"

section \<open>The tile server\<close>

text \<open>
  \<^verbatim>\<open>TileServer\<close>: the field \<^verbatim>\<open>m\<close> is the cache, \<^verbatim>\<open>nil\<close> when no cache file is
  configured (here \<open>m_cache\<close>, \<open>None\<close> when there is none, else the database at the time
  of the fetch).
\<close>

record TileServer =
  m_cache :: "TileDb option"
  lmp :: LayerMultiplex
  TmsSchema :: bool

text \<open>
  The effects of serving a request, in order: the request put on the cache's request
  queue, the effects of \<^verbatim>\<open>SubmitRequest\<close>, \<^verbatim>\<open>http.NotFound\<close>, a header set, the body
  written, a result put on the cache's insert queue. A call returns, or blocks for ever
  in a receive on a channel nothing is written to.
\<close>

datatype serve_effect =
  CacheRequest TileFetchRequest
  | Multiplex mux_effect
  | HttpNotFound
  | SetHeader string string
  | WriteBody "bytes option"
  | CacheInsert TileFetchResult

datatype serve_end = Returned | BlockedOnReceive

text \<open>The statements of \<^verbatim>\<open>ServeTileRequest\<close> from \<^verbatim>\<open>w.Header().Set\<close> on.\<close>

definition respond :: "TileServer \<Rightarrow> TileFetchResult \<Rightarrow> bool \<Rightarrow> serve_effect list" where
  "respond t result needsInsert =
     [SetHeader ''Content-Type'' ''image/png'', WriteBody (BlobPNG result)]
     @ (if m_cache t \<noteq> None \<and> needsInsert then [CacheInsert result] else [])"

text \<open>
  \<^verbatim>\<open>ServeTileRequest\<close>, for the new channel \<open>ch\<close> it makes. The cache answers a request
  on its queue with the result of \<open>TileDb_fetch\<close>; the zero value of \<^verbatim>\<open>result\<close> is used
  when there is no cache.
\<close>

definition ServeTileRequest ::
  "TileServer \<Rightarrow> (chan \<Rightarrow> FetchRequest \<Rightarrow> TileFetchResult list) \<Rightarrow> chan \<Rightarrow> TileCoord
    \<Rightarrow> serve_effect list \<times> serve_end" where
  "ServeTileRequest t workers ch tc =
     (let tr = \<lparr>TileFetchRequest.Coord = tc, OutChan = ch\<rparr>;
          (asked, result) =
            (case m_cache t of
               Some db \<Rightarrow> ([CacheRequest tr], fst (TileDb_fetch tr db))
             | None \<Rightarrow>
                 ([], \<lparr>TileFetchResult.Coord = \<lparr>X = 0, Y = 0, Zoom = 0, Tms = False, Layer = []\<rparr>,
                       BlobPNG = None, Error = None\<rparr>))
      in if m_cache t = None \<or> BlobPNG result = None then
           (let (submitted, ok) = SubmitRequest (lmp t) (TileRequest tr) in
            case first_reply ch (replies_to workers submitted) of
              None \<Rightarrow> (asked @ map Multiplex submitted, BlockedOnReceive)
            | Some result \<Rightarrow>
                if BlobPNG result = None
                then (asked @ map Multiplex submitted @ [HttpNotFound], Returned)
                else (asked @ map Multiplex submitted @ respond t result True, Returned))
         else (asked @ respond t result False, Returned))"

chapter \<open>Properties\<close>

section \<open>The loops as list comprehensions\<close>

lemma loop_y_eq: "loop_y ySize x y body acc = acc @ map (body x) [y..ySize - 1]"
proof (induction ySize x y body acc rule: loop_y.induct)
  case (1 ySize x y body acc)
  show ?case
  proof (cases "y < ySize")
    case True
    then have "[y..ySize - 1] = y # [y + 1..ySize - 1]"
      by (simp add: upto_rec1)
    with True "1" show ?thesis
      by (subst loop_y.simps) simp
  next
    case False
    then show ?thesis
      by (subst loop_y.simps) simp
  qed
qed

lemma loop_x_eq:
  "loop_x xSize ySize x body acc =
     acc @ concat (map (\<lambda>i. map (body i) [0..ySize - 1]) [x..xSize - 1])"
proof (induction xSize ySize x body acc rule: loop_x.induct)
  case (1 xSize ySize x body acc)
  show ?case
  proof (cases "x < xSize")
    case True
    then have "[x..xSize - 1] = x # [x + 1..xSize - 1]"
      by (simp add: upto_rec1)
    with True "1" show ?thesis
      by (subst loop_x.simps) (simp add: loop_y_eq)
  next
    case False
    then show ?thesis
      by (subst loop_x.simps) simp
  qed
qed

lemma upto_as_upt: "[0..int n - 1] = map int [0..<n]"
proof (induction n)
  case 0
  show ?case by simp
next
  case (Suc n)
  have "[0..int (Suc n) - 1] = [0..int n - 1] @ [int n]"
    by (simp add: upto_rec2)
  with Suc show ?case by simp
qed

lemma upt_shift: "[a..<a + n] = map (\<lambda>i. a + i) [0..<n]"
  by (induction n) simp_all

lemma loop_x_length:
  "length (loop_x xSize ySize 0 body []) = nat xSize * nat ySize"
proof -
  have "sum_list (map (\<lambda>i. nat ySize) [0..xSize - 1]) = nat xSize * nat ySize"
    by (simp add: sum_list_triv)
  then show ?thesis
    by (simp add: loop_x_eq length_concat comp_def)
qed

lemma go_int_small:
  assumes "unat (u::u64) < 2^63" shows "go_int u = int (unat u)"
proof -
  have "int (unat u) < int (2 ^ 63)"
    using assms by (simp only: of_nat_less_iff)
  then have "uint u < 2 ^ 63"
    by simp
  then have "signed_take_bit 63 (uint u) = uint u"
    by (intro signed_take_bit_int_eq_self) (simp_all add: order_trans [of _ 0])
  then show ?thesis
    by (simp add: go_int_def sint_uint)
qed

lemma size_unat:
  assumes "(a::u64) \<le> b" "unat b - unat a + 1 < 2^63"
  shows "unat (b - a + 1) = unat b - unat a + 1"
proof -
  have d: "unat (b - a) = unat b - unat a"
    using assms(1) by (rule unat_sub)
  have "(2::nat) ^ 63 < 2 ^ LENGTH(64)"
    by simp
  with assms(2) d have "unat (b - a) + unat (1::u64) < 2 ^ LENGTH(64)"
    by simp
  then have "unat (b - a + 1) = unat (b - a) + unat (1::u64)"
    by (simp only: unat_add_lem)
  with d show ?thesis
    by simp
qed

lemma tileAt_nat:
  "tileAt c (int i) (int j) =
     \<lparr>X = MinX c + of_nat i, Y = MinY c + of_nat j,
      Zoom = MetaTileCoord.Zoom c, Tms = MetaTileCoord.Tms c, Layer = MetaTileCoord.Layer c\<rparr>"
  by (simp add: tileAt_def go_uint64_def)

lemma grid_eq:
  assumes "unat a \<le> unat b" "unat a' \<le> unat b'"
  shows "concat (map (\<lambda>i. map (tileAt c i) [0..int (unat b' - unat a' + 1) - 1]) [0..int (unat b - unat a + 1) - 1])
     = concat (map (\<lambda>x. map (\<lambda>y. tileAt c (int (x - unat a)) (int (y - unat a')))
       [unat a' ..< Suc (unat b')])
       [unat a ..< Suc (unat b)])"
proof -
  have x: "[unat a ..< Suc (unat b)] = map (\<lambda>i. unat a + i) [0..<unat b - unat a + 1]"
    using assms(1) upt_shift [of "unat a" "unat b - unat a + 1"] by simp
  have y: "[unat a' ..< Suc (unat b')] = map (\<lambda>i. unat a' + i) [0..<unat b' - unat a' + 1]"
    using assms(2) upt_shift [of "unat a'" "unat b' - unat a' + 1"] by simp
  show ?thesis
    by (simp only: upto_as_upt x y map_map comp_def) simp
qed

lemma tileAt_offset:
  assumes "unat (MinX c) \<le> x" "unat (MinY c) \<le> y"
  shows "tileAt c (int (x - unat (MinX c))) (int (y - unat (MinY c))) =
     \<lparr>X = of_nat x, Y = of_nat y,
      Zoom = MetaTileCoord.Zoom c, Tms = MetaTileCoord.Tms c, Layer = MetaTileCoord.Layer c\<rparr>"
proof -
  define i j where ij: "i = x - unat (MinX c)" "j = y - unat (MinY c)"
  with assms have xy: "x = unat (MinX c) + i" "y = unat (MinY c) + j"
    by simp_all
  have "tileAt c (int i) (int j) =
     \<lparr>X = of_nat x, Y = of_nat y,
      Zoom = MetaTileCoord.Zoom c, Tms = MetaTileCoord.Tms c, Layer = MetaTileCoord.Layer c\<rparr>"
    unfolding xy tileAt_nat by simp
  then show ?thesis
    unfolding ij .
qed

lemma column_major_tileAt:
  "column_major c =
     concat (map (\<lambda>x. map (\<lambda>y. tileAt c (int (x - unat (MinX c))) (int (y - unat (MinY c))))
       [unat (MinY c) ..< Suc (unat (MaxY c))])
       [unat (MinX c) ..< Suc (unat (MaxX c))])"
  unfolding column_major_def
  by (intro arg_cong [where f = concat] map_cong refl) (auto simp only: tileAt_offset set_upt atLeastLessThan_iff)

section \<open>Metatile decomposition\<close>

lemma metatile_grid:
  assumes "MinX c \<le> MaxX c" and "MinY c \<le> MaxY c"
    and "unat (MaxX c) - unat (MinX c) + 1 < 2 ^ 63"
    and "unat (MaxY c) - unat (MinY c) + 1 < 2 ^ 63"
    and "(unat (MaxX c) - unat (MinX c) + 1) * (unat (MaxY c) - unat (MinY c) + 1) < 2 ^ 64"
  shows "XSize c = Returns (MaxX c - MinX c + 1)"
    and "YSize c = Returns (MaxY c - MinY c + 1)"
    and "loop_x (go_int (MaxX c - MinX c + 1)) (go_int (MaxY c - MinY c + 1)) 0 (tileAt c) []
      = column_major c"
    and "length (column_major c) = unat ((MaxX c - MinX c + 1) * (MaxY c - MinY c + 1))"
proof -
  let ?xs = "MaxX c - MinX c + 1" and ?ys = "MaxY c - MinY c + 1"
  show X: "XSize c = Returns ?xs" and Y: "YSize c = Returns ?ys"
    using assms(1,2) by (simp_all add: XSize_def YSize_def not_less)
  have ux: "unat ?xs = unat (MaxX c) - unat (MinX c) + 1"
    using assms(1,3) by (rule size_unat)
  have uy: "unat ?ys = unat (MaxY c) - unat (MinY c) + 1"
    using assms(2,4) by (rule size_unat)
  have ix: "go_int ?xs = int (unat (MaxX c) - unat (MinX c) + 1)"
    using assms(3) ux go_int_small [of ?xs] by simp
  have iy: "go_int ?ys = int (unat (MaxY c) - unat (MinY c) + 1)"
    using assms(4) uy go_int_small [of ?ys] by simp
  have le: "unat (MinX c) \<le> unat (MaxX c)" "unat (MinY c) \<le> unat (MaxY c)"
    using assms(1,2) by (simp_all add: word_le_nat_alt)
  show T: "loop_x (go_int ?xs) (go_int ?ys) 0 (tileAt c) [] = column_major c"
    unfolding ix iy loop_x_eq append_Nil column_major_tileAt
    using grid_eq [OF le] by simp
  have "unat ?xs * unat ?ys < 2 ^ LENGTH(64)"
    using assms(5) ux uy by simp
  then have m: "unat (?xs * ?ys) = unat ?xs * unat ?ys"
    by (simp only: unat_mult_lem)
  have "length (loop_x (go_int ?xs) (go_int ?ys) 0 (tileAt c) []) = unat ?xs * unat ?ys"
    by (simp only: loop_x_length ix iy ux uy nat_int)
  with T m show "length (column_major c) = unat (?xs * ?ys)"
    by simp
qed

text \<open>
  C1 (as amended). For every MetaTileCoord with \<open>MaxX \<ge> MinX\<close> and \<open>MaxY \<ge> MinY\<close> whose
  width \<open>MaxX - MinX + 1\<close> and height \<open>MaxY - MinY + 1\<close> are below \<open>2 ^ 63\<close> and whose
  product is below \<open>2 ^ 64\<close>: \<open>XSize\<close>, \<open>YSize\<close>, \<open>Count\<close> and \<open>TileCoords\<close> all return,
  \<open>Count\<close> is \<open>XSize * YSize\<close> and is the length of the list \<open>TileCoords\<close> returns, and
  that list is the column-major ascending enumeration (outer loop over X from MinX to
  MaxX, inner loop over Y from MinY to MaxY), each element with the block's zoom, scheme
  flag and layer.
\<close>

theorem TileCoords_column_major:
  assumes "MinX c \<le> MaxX c" and "MinY c \<le> MaxY c"
    and "unat (MaxX c) - unat (MinX c) + 1 < 2 ^ 63"
    and "unat (MaxY c) - unat (MinY c) + 1 < 2 ^ 63"
    and "(unat (MaxX c) - unat (MinX c) + 1) * (unat (MaxY c) - unat (MinY c) + 1) < 2 ^ 64"
  shows "XSize c = Returns (MaxX c - MinX c + 1)
    \<and> YSize c = Returns (MaxY c - MinY c + 1)
    \<and> Count c = Returns ((MaxX c - MinX c + 1) * (MaxY c - MinY c + 1))
    \<and> TileCoords c = Returns (column_major c)
    \<and> length (column_major c) = unat ((MaxX c - MinX c + 1) * (MaxY c - MinY c + 1))"
proof -
  note grid = metatile_grid [OF assms]
  have "Count c = Returns ((MaxX c - MinX c + 1) * (MaxY c - MinY c + 1))"
    by (simp add: Count_def grid(1,2))
  moreover have "TileCoords c = Returns (column_major c)"
    by (simp add: TileCoords_def grid(1,2,3))
  ultimately show ?thesis
    using grid(1,2,4) by simp
qed

text \<open>
  The block MinX=1, MinY=1, MaxX=2, MaxY=2, Zoom=3 decomposes into (1,1), (1,2), (2,1),
  (2,2), in that order, and its count is 4.
\<close>

theorem TileCoords_column_major_witness:
  "TileCoords \<lparr>MinX = 1, MinY = 1, MaxX = 2, MaxY = 2, Zoom = 3, Tms = False, Layer = ''default''\<rparr> =
     Returns
      [\<lparr>X = 1, Y = 1, Zoom = 3, Tms = False, Layer = ''default''\<rparr>,
       \<lparr>X = 1, Y = 2, Zoom = 3, Tms = False, Layer = ''default''\<rparr>,
       \<lparr>X = 2, Y = 1, Zoom = 3, Tms = False, Layer = ''default''\<rparr>,
       \<lparr>X = 2, Y = 2, Zoom = 3, Tms = False, Layer = ''default''\<rparr>]
   \<and> Count \<lparr>MinX = 1, MinY = 1, MaxX = 2, MaxY = 2, Zoom = 3, Tms = False, Layer = ''default''\<rparr> = Returns 4"
  using TileCoords_column_major
    [of "\<lparr>MinX = 1, MinY = 1, MaxX = 2, MaxY = 2, Zoom = 3, Tms = False, Layer = ''default''\<rparr>"]
  by (simp add: column_major_def upt_rec)

text \<open>
  Without the bound the claim fails: a block of width \<open>2 ^ 63 + 1\<close> and height 2 has
  \<open>MinX \<le> MaxX\<close> and \<open>MinY \<le> MaxY\<close>; its \<open>Count\<close> wraps around to 2, while
  \<^verbatim>\<open>int(xSize)\<close> is negative, so the outer loop of \<open>TileCoords\<close> never runs and the
  list is empty.
\<close>

theorem TileCoords_count_counterexample:
  "MinX \<lparr>MinX = 0, MinY = 0, MaxX = 0x8000000000000000, MaxY = 1, Zoom = 0, Tms = False, Layer = ''default''\<rparr>
     \<le> MaxX \<lparr>MinX = 0, MinY = 0, MaxX = 0x8000000000000000, MaxY = 1, Zoom = 0, Tms = False, Layer = ''default''\<rparr>
   \<and> MinY \<lparr>MinX = 0, MinY = 0, MaxX = 0x8000000000000000, MaxY = 1, Zoom = 0, Tms = False, Layer = ''default''\<rparr>
     \<le> MaxY \<lparr>MinX = 0, MinY = 0, MaxX = 0x8000000000000000, MaxY = 1, Zoom = 0, Tms = False, Layer = ''default''\<rparr>
   \<and> Count \<lparr>MinX = 0, MinY = 0, MaxX = 0x8000000000000000, MaxY = 1, Zoom = 0, Tms = False, Layer = ''default''\<rparr>
     = Returns 2
   \<and> TileCoords \<lparr>MinX = 0, MinY = 0, MaxX = 0x8000000000000000, MaxY = 1, Zoom = 0, Tms = False, Layer = ''default''\<rparr>
     = Returns []"
  by (simp add: Count_def TileCoords_def XSize_def YSize_def go_int_def loop_x.simps)

section \<open>Scheme conversion\<close>

lemma shl1_pow: "shl1 z = 2 ^ unat z"
  by (simp add: shl1_def push_bit_eq_mult)

lemma flip_order:
  fixes a lo hi :: u64
  assumes "lo \<le> hi"
  shows "(a - hi \<le> a - lo) = (\<not> (lo \<le> a \<and> a < hi))"
  using assms by unat_arith

lemma unat_shl1_pred:
  "unat (shl1 z - 1) = (if unat z < 64 then 2 ^ unat z - 1 else 2 ^ 64 - 1)"
proof (cases "unat z < 64")
  case True
  then have "(2::nat) ^ unat z < 2 ^ 64"
    by (intro power_strict_increasing) simp_all
  then have "(2::nat) ^ unat z < 2 ^ LENGTH(64)"
    by simp
  then have "(2::nat) ^ unat z mod 2 ^ LENGTH(64) = 2 ^ unat z"
    by (rule mod_less)
  moreover have "unat (of_nat (2 ^ unat z) :: u64) = 2 ^ unat z mod 2 ^ LENGTH(64)"
    by (rule unat_of_nat)
  ultimately have p: "unat (2 ^ unat z :: u64) = 2 ^ unat z"
    by simp
  then have "(2 ^ unat z :: u64) \<noteq> 0"
    by (metis power_not_zero unat_0 zero_neq_numeral)
  then have "unat (2 ^ unat z - 1 :: u64) = unat (2 ^ unat z :: u64) - 1"
    by (rule unat_minus_one)
  with True p show ?thesis
    by (simp add: shl1_pow)
next
  case False
  then have e: "(2 ^ unat z :: u64) = 0"
    by (simp add: not_less)
  have "unat (0 - 1 :: u64) = 2 ^ 64 - 1"
    by (simp add: unsigned_minus_1_eq_mask mask_eq_exp_minus_1)
  with False show ?thesis
    unfolding shl1_pow e by simp
qed

lemma straddle_nat:
  fixes lo hi z :: u64
  shows "(lo \<le> shl1 z - 1 \<and> shl1 z - 1 < hi) = (unat lo < 2 ^ unat z \<and> 2 ^ unat z \<le> unat hi)"
proof (cases "unat z < 64")
  case True
  define p :: nat where "p = 2 ^ unat z"
  then have "0 < p" by simp
  then have "(unat lo \<le> p - 1 \<and> p - 1 < unat hi) = (unat lo < p \<and> p \<le> unat hi)"
    by arith
  then show ?thesis
    unfolding word_le_nat_alt word_less_nat_alt unat_shl1_pred p_def using True by simp
next
  case False
  then have "(2::nat) ^ 64 \<le> 2 ^ unat z"
    by (intro power_increasing) simp_all
  moreover have "unat lo < 2 ^ 64" "unat hi < 2 ^ 64"
    using unsigned_less [of lo] unsigned_less [of hi] by simp_all
  ultimately show ?thesis
    unfolding word_le_nat_alt word_less_nat_alt unat_shl1_pred using False by auto
qed

text \<open>
  C7 (as amended). Scheme conversion is an involution: for every TileCoord, applying
  \<open>setTMS\<close> twice with the same target scheme equals applying it once, conversion to the
  other scheme maps the row \<open>Y\<close> to \<open>2 ^ Zoom - Y - 1\<close> (in 64-bit arithmetic), and
  converting to the other scheme and back restores the original coordinate. For every
  MetaTileCoord, conversion negates \<open>MinY\<close> and \<open>MaxY\<close> and swaps them, and is likewise
  idempotent per target and involutive. For a block with \<open>MinY \<le> MaxY\<close>, the converted
  block has \<open>MinY \<le> MaxY\<close> exactly when the block does not straddle the end of the
  zoom's row range (\<open>MinY < 2 ^ Zoom \<le> MaxY\<close>); in particular \<open>MinY \<le> MaxY\<close> is preserved
  for every block whose rows are valid for its zoom (\<open>MaxY < 2 ^ Zoom\<close>).
\<close>

theorem setTMS_involution:
  "setTMS t (setTMS t tc) = setTMS t tc
   \<and> Y (setTMS (\<not> TileCoord.Tms tc) tc) = 2 ^ unat (TileCoord.Zoom tc) - Y tc - 1
   \<and> setTMS (TileCoord.Tms tc) (setTMS (\<not> TileCoord.Tms tc) tc) = tc
   \<and> setTMS_meta t (setTMS_meta t mc) = setTMS_meta t mc
   \<and> MinY (setTMS_meta (\<not> MetaTileCoord.Tms mc) mc) = 2 ^ unat (MetaTileCoord.Zoom mc) - MaxY mc - 1
   \<and> MaxY (setTMS_meta (\<not> MetaTileCoord.Tms mc) mc) = 2 ^ unat (MetaTileCoord.Zoom mc) - MinY mc - 1
   \<and> setTMS_meta (MetaTileCoord.Tms mc) (setTMS_meta (\<not> MetaTileCoord.Tms mc) mc) = mc
   \<and> (MinY mc \<le> MaxY mc \<longrightarrow>
        (MinY (setTMS_meta (\<not> MetaTileCoord.Tms mc) mc) \<le> MaxY (setTMS_meta (\<not> MetaTileCoord.Tms mc) mc))
          = (\<not> (unat (MinY mc) < 2 ^ unat (MetaTileCoord.Zoom mc)
                \<and> 2 ^ unat (MetaTileCoord.Zoom mc) \<le> unat (MaxY mc))))
   \<and> (MinY mc \<le> MaxY mc \<and> unat (MaxY mc) < 2 ^ unat (MetaTileCoord.Zoom mc) \<longrightarrow>
        MinY (setTMS_meta t mc) \<le> MaxY (setTMS_meta t mc))"
proof -
  let ?a = "shl1 (MetaTileCoord.Zoom mc) - 1"
  have tile_twice: "setTMS t (setTMS t tc) = setTMS t tc"
    by (simp add: setTMS_def)
  have tile_row: "Y (setTMS (\<not> TileCoord.Tms tc) tc) = 2 ^ unat (TileCoord.Zoom tc) - Y tc - 1"
    by (simp add: setTMS_def shl1_pow)
  have tile_back: "setTMS (TileCoord.Tms tc) (setTMS (\<not> TileCoord.Tms tc) tc) = tc"
    by (simp add: setTMS_def)
  have meta_twice: "setTMS_meta t (setTMS_meta t mc) = setTMS_meta t mc"
    by (simp add: setTMS_meta_def Let_def)
  have lo: "MinY (setTMS_meta (\<not> MetaTileCoord.Tms mc) mc) = ?a - MaxY mc"
    and hi: "MaxY (setTMS_meta (\<not> MetaTileCoord.Tms mc) mc) = ?a - MinY mc"
    by (simp_all add: setTMS_meta_def Let_def)
  have meta_back: "setTMS_meta (MetaTileCoord.Tms mc) (setTMS_meta (\<not> MetaTileCoord.Tms mc) mc) = mc"
    by (simp add: setTMS_meta_def Let_def)
  have kept: "(MinY (setTMS_meta (\<not> MetaTileCoord.Tms mc) mc) \<le> MaxY (setTMS_meta (\<not> MetaTileCoord.Tms mc) mc))
          = (\<not> (unat (MinY mc) < 2 ^ unat (MetaTileCoord.Zoom mc)
                \<and> 2 ^ unat (MetaTileCoord.Zoom mc) \<le> unat (MaxY mc)))"
    if "MinY mc \<le> MaxY mc"
    unfolding lo hi flip_order [OF that] straddle_nat ..
  have valid: "MinY (setTMS_meta t mc) \<le> MaxY (setTMS_meta t mc)"
    if le: "MinY mc \<le> MaxY mc" and v: "unat (MaxY mc) < 2 ^ unat (MetaTileCoord.Zoom mc)"
  proof (cases "MetaTileCoord.Tms mc = t")
    case True
    with le show ?thesis
      by (simp add: setTMS_meta_def)
  next
    case False
    then have "t = (\<not> MetaTileCoord.Tms mc)"
      by simp
    with kept [OF le] v show ?thesis
      by simp
  qed
  have rows: "MinY (setTMS_meta (\<not> MetaTileCoord.Tms mc) mc) = 2 ^ unat (MetaTileCoord.Zoom mc) - MaxY mc - 1"
    "MaxY (setTMS_meta (\<not> MetaTileCoord.Tms mc) mc) = 2 ^ unat (MetaTileCoord.Zoom mc) - MinY mc - 1"
    unfolding lo hi by (simp_all add: shl1_pow)
  from tile_twice tile_row tile_back meta_twice rows meta_back kept valid show ?thesis
    by blast
qed

text \<open>
  The block of rows 1 to 2 at zoom 3 converts to rows 5 to 6, in order, and back.
\<close>

theorem setTMS_involution_witness:
  "MinY \<lparr>MinX = 0, MinY = 1, MaxX = 0, MaxY = 2, Zoom = 3, Tms = False, Layer = ''default''\<rparr>
     \<le> MaxY \<lparr>MinX = 0, MinY = 1, MaxX = 0, MaxY = 2, Zoom = 3, Tms = False, Layer = ''default''\<rparr>
   \<and> unat (MaxY \<lparr>MinX = 0, MinY = 1, MaxX = 0, MaxY = 2, Zoom = 3, Tms = False, Layer = ''default''\<rparr>)
       < 2 ^ unat (MetaTileCoord.Zoom \<lparr>MinX = 0, MinY = 1, MaxX = 0, MaxY = 2, Zoom = 3, Tms = False, Layer = ''default''\<rparr>)
   \<and> MinY (setTMS_meta True \<lparr>MinX = 0, MinY = 1, MaxX = 0, MaxY = 2, Zoom = 3, Tms = False, Layer = ''default''\<rparr>)
     \<le> MaxY (setTMS_meta True \<lparr>MinX = 0, MinY = 1, MaxX = 0, MaxY = 2, Zoom = 3, Tms = False, Layer = ''default''\<rparr>)
   \<and> setTMS_meta True \<lparr>MinX = 0, MinY = 1, MaxX = 0, MaxY = 2, Zoom = 3, Tms = False, Layer = ''default''\<rparr>
     = \<lparr>MinX = 0, MinY = 5, MaxX = 0, MaxY = 6, Zoom = 3, Tms = True, Layer = ''default''\<rparr>
   \<and> setTMS_meta False (setTMS_meta True \<lparr>MinX = 0, MinY = 1, MaxX = 0, MaxY = 2, Zoom = 3, Tms = False, Layer = ''default''\<rparr>)
     = \<lparr>MinX = 0, MinY = 1, MaxX = 0, MaxY = 2, Zoom = 3, Tms = False, Layer = ''default''\<rparr>"
  using setTMS_involution
    [of True _ "\<lparr>MinX = 0, MinY = 1, MaxX = 0, MaxY = 2, Zoom = 3, Tms = False, Layer = ''default''\<rparr>"]
  by (simp add: setTMS_meta_def shl1_def)

text \<open>
  The order is not preserved for every block with \<open>MinY \<le> MaxY\<close>: at zoom 1 (rows 0 and
  1) the block of rows 1 to 2 converts to \<open>MinY = 2 ^ 64 - 1\<close> and \<open>MaxY = 0\<close>.
\<close>

theorem setTMS_meta_order_counterexample:
  "MinY \<lparr>MinX = 0, MinY = 1, MaxX = 0, MaxY = 2, Zoom = 1, Tms = False, Layer = ''default''\<rparr>
     \<le> MaxY \<lparr>MinX = 0, MinY = 1, MaxX = 0, MaxY = 2, Zoom = 1, Tms = False, Layer = ''default''\<rparr>
   \<and> setTMS_meta True \<lparr>MinX = 0, MinY = 1, MaxX = 0, MaxY = 2, Zoom = 1, Tms = False, Layer = ''default''\<rparr>
     = \<lparr>MinX = 0, MinY = 0xFFFFFFFFFFFFFFFF, MaxX = 0, MaxY = 0, Zoom = 1, Tms = True, Layer = ''default''\<rparr>
   \<and> \<not> MinY (setTMS_meta True \<lparr>MinX = 0, MinY = 1, MaxX = 0, MaxY = 2, Zoom = 1, Tms = False, Layer = ''default''\<rparr>)
     \<le> MaxY (setTMS_meta True \<lparr>MinX = 0, MinY = 1, MaxX = 0, MaxY = 2, Zoom = 1, Tms = False, Layer = ''default''\<rparr>)"
  by (simp add: setTMS_meta_def shl1_def)

section \<open>The metatile worker\<close>

lemma loop_x_map:
  "loop_x xSize ySize 0 (\<lambda>x y. f (body x y)) [] = map f (loop_x xSize ySize 0 body [])"
  by (simp add: loop_x_eq map_concat comp_def)

lemma go_int_big:
  assumes "2 ^ 63 \<le> unat (u::u64)" shows "go_int u < 0"
proof -
  have "int (2 ^ 63) \<le> int (unat u)"
    using assms by (simp only: of_nat_le_iff)
  then have "2 ^ 63 \<le> uint u"
    by simp
  then have "signed_take_bit 63 (uint u) \<le> uint u - 2 ^ Suc 63"
    by (rule signed_take_bit_int_less_eq)
  moreover have "uint u < 2 ^ Suc 63"
    using uint_lt2p [of u] by simp
  ultimately have "signed_take_bit 63 (uint u) < 0"
    by linarith
  then show ?thesis
    by (simp add: go_int_def sint_uint)
qed

lemma count_mismatch:
  assumes "length results < 2 ^ 63" and "length results \<noteq> unat (n::u64)"
  shows "int (length results) \<noteq> go_int n"
proof (cases "unat n < 2 ^ 63")
  case True
  then have "go_int n = int (unat n)"
    by (rule go_int_small)
  with assms(2) show ?thesis
    by (simp only: of_nat_eq_iff) simp
next
  case False
  then have "go_int n < 0"
    by (intro go_int_big) simp
  then show ?thesis
    by linarith
qed

lemma errorAt_tileAt:
  "errorAt coord err = (\<lambda>x y. \<lparr>TileFetchResult.Coord = tileAt coord x y, BlobPNG = None, Error = Some err\<rparr>)"
  by (simp add: errorAt_def fun_eq_iff)

text \<open>
  C2 (as amended). For every metatile request with \<open>MaxX \<ge> MinX\<close> and \<open>MaxY \<ge> MinY\<close>
  whose width and height are below \<open>2 ^ 63\<close> and whose product is below \<open>2 ^ 64\<close>, and whose
  block render returns an error: the worker writes exactly \<open>Count\<close> results to the reply
  channel, one per coordinate of \<open>TileCoords\<close> in the same column-major order, every one
  of them carrying that same error and no bytes, and it returns without a panic.
\<close>

theorem processRequestMeta_error_replicated:
  assumes "MinX coord \<le> MaxX coord" and "MinY coord \<le> MaxY coord"
    and "unat (MaxX coord) - unat (MinX coord) + 1 < 2 ^ 63"
    and "unat (MaxY coord) - unat (MinY coord) + 1 < 2 ^ 63"
    and "(unat (MaxX coord) - unat (MinX coord) + 1) * (unat (MaxY coord) - unat (MinY coord) + 1) < 2 ^ 64"
    and "RenderMetaTile t coord = Returns (Inl err)"
  shows "Count coord = Returns ((MaxX coord - MinX coord + 1) * (MaxY coord - MinY coord + 1))
    \<and> TileCoords coord = Returns (column_major coord)
    \<and> processRequestMeta t coord =
        (map (\<lambda>c. \<lparr>TileFetchResult.Coord = c, BlobPNG = None, Error = Some err\<rparr>) (column_major coord), None)
    \<and> length (fst (processRequestMeta t coord))
        = unat ((MaxX coord - MinX coord + 1) * (MaxY coord - MinY coord + 1))"
proof -
  note grid = metatile_grid [OF assms(1-5)]
  have C: "Count coord = Returns ((MaxX coord - MinX coord + 1) * (MaxY coord - MinY coord + 1))"
    by (simp add: Count_def grid(1,2))
  have T: "TileCoords coord = Returns (column_major coord)"
    by (simp add: TileCoords_def grid(1,2,3))
  have P: "processRequestMeta t coord =
        (map (\<lambda>c. \<lparr>TileFetchResult.Coord = c, BlobPNG = None, Error = Some err\<rparr>) (column_major coord), None)"
  proof -
    let ?mk = "\<lambda>c. \<lparr>TileFetchResult.Coord = c, BlobPNG = None, Error = Some err\<rparr>"
    have "loop_x (go_int (MaxX coord - MinX coord + 1)) (go_int (MaxY coord - MinY coord + 1)) 0
        (errorAt coord err) [] = map ?mk (column_major coord)"
      unfolding errorAt_tileAt grid(3) [symmetric]
      by (rule loop_x_map [of _ _ ?mk "tileAt coord"])
    then show ?thesis
      by (simp add: processRequestMeta_def C assms(6) grid(1,2))
  qed
  from C T P grid(4) show ?thesis
    by simp
qed

text \<open>
  The block of columns 1 to 2 and rows 1 to 2 on a renderer whose engine fails: four
  results, in column-major order, each with the engine's error.
\<close>

theorem processRequestMeta_error_replicated_witness:
  "RenderMetaTile failing_renderer
       \<lparr>MinX = 1, MinY = 1, MaxX = 2, MaxY = 2, Zoom = 3, Tms = False, Layer = ''default''\<rparr>
     = Returns (Inl (Err ''render failed''))
   \<and> Count \<lparr>MinX = 1, MinY = 1, MaxX = 2, MaxY = 2, Zoom = 3, Tms = False, Layer = ''default''\<rparr>
     = Returns 4
   \<and> processRequestMeta failing_renderer
       \<lparr>MinX = 1, MinY = 1, MaxX = 2, MaxY = 2, Zoom = 3, Tms = False, Layer = ''default''\<rparr>
     = ([\<lparr>TileFetchResult.Coord = \<lparr>X = 1, Y = 1, Zoom = 3, Tms = False, Layer = ''default''\<rparr>,
           BlobPNG = None, Error = Some (Err ''render failed'')\<rparr>,
         \<lparr>TileFetchResult.Coord = \<lparr>X = 1, Y = 2, Zoom = 3, Tms = False, Layer = ''default''\<rparr>,
           BlobPNG = None, Error = Some (Err ''render failed'')\<rparr>,
         \<lparr>TileFetchResult.Coord = \<lparr>X = 2, Y = 1, Zoom = 3, Tms = False, Layer = ''default''\<rparr>,
           BlobPNG = None, Error = Some (Err ''render failed'')\<rparr>,
         \<lparr>TileFetchResult.Coord = \<lparr>X = 2, Y = 2, Zoom = 3, Tms = False, Layer = ''default''\<rparr>,
           BlobPNG = None, Error = Some (Err ''render failed'')\<rparr>], None)"
proof -
  let ?c = "\<lparr>MinX = 1, MinY = 1, MaxX = 2, MaxY = 2, Zoom = 3, Tms = False, Layer = ''default''\<rparr>"
  have r: "RenderMetaTile failing_renderer ?c = Returns (Inl (Err ''render failed''))"
    by (simp add: RenderMetaTile_def setTMS_meta_def XSize_def YSize_def failing_renderer_def)
  show ?thesis
    using processRequestMeta_error_replicated [of ?c failing_renderer "Err ''render failed''"] r
    by (simp add: column_major_def upt_rec)
qed

text \<open>
  Without the bound the number of results is not \<open>Count\<close>: for the block of width
  \<open>2 ^ 63 + 1\<close> and height 2, \<open>Count\<close> wraps around to 2 and the worker, whose loops run to
  the negative \<^verbatim>\<open>int(xSize)\<close>, writes nothing.
\<close>

theorem processRequestMeta_error_count_counterexample:
  "MinX \<lparr>MinX = 0, MinY = 0, MaxX = 0x8000000000000000, MaxY = 1, Zoom = 0, Tms = False, Layer = ''default''\<rparr>
     \<le> MaxX \<lparr>MinX = 0, MinY = 0, MaxX = 0x8000000000000000, MaxY = 1, Zoom = 0, Tms = False, Layer = ''default''\<rparr>
   \<and> MinY \<lparr>MinX = 0, MinY = 0, MaxX = 0x8000000000000000, MaxY = 1, Zoom = 0, Tms = False, Layer = ''default''\<rparr>
     \<le> MaxY \<lparr>MinX = 0, MinY = 0, MaxX = 0x8000000000000000, MaxY = 1, Zoom = 0, Tms = False, Layer = ''default''\<rparr>
   \<and> RenderMetaTile failing_renderer
       \<lparr>MinX = 0, MinY = 0, MaxX = 0x8000000000000000, MaxY = 1, Zoom = 0, Tms = False, Layer = ''default''\<rparr>
     = Returns (Inl (Err ''render failed''))
   \<and> Count \<lparr>MinX = 0, MinY = 0, MaxX = 0x8000000000000000, MaxY = 1, Zoom = 0, Tms = False, Layer = ''default''\<rparr>
     = Returns 2
   \<and> processRequestMeta failing_renderer
       \<lparr>MinX = 0, MinY = 0, MaxX = 0x8000000000000000, MaxY = 1, Zoom = 0, Tms = False, Layer = ''default''\<rparr>
     = ([], None)"
  by (simp add: processRequestMeta_def RenderMetaTile_def setTMS_meta_def Count_def XSize_def YSize_def
      failing_renderer_def go_int_def loop_x.simps)

text \<open>
  C9. For every metatile request whose block render succeeds but returns a number of
  results different from \<open>Count\<close>, the worker panics with the count mismatch and writes
  none of the results to the reply channel. (The length of a Go slice is a non-negative
  \<^verbatim>\<open>int\<close>, hence below \<open>2 ^ 63\<close>.)
\<close>

theorem processRequestMeta_count_mismatch:
  assumes "Count coord = Returns n"
    and "RenderMetaTile t coord = Returns (Inr results)"
    and "length results < 2 ^ 63"
    and "length results \<noteq> unat n"
  shows "processRequestMeta t coord = ([], Some (ResultCountMismatch (int (length results)) n))"
  using count_mismatch [OF assms(3,4)]
  by (simp add: processRequestMeta_def assms(1,2))

text \<open>
  A mismatch that \<open>RenderMetaTile\<close> itself produces: for the block of width \<open>2 ^ 63 + 1\<close>
  and height 2 its slicing loops do not run, so it returns no results, while \<open>Count\<close> is 2.
\<close>

theorem processRequestMeta_count_mismatch_witness:
  "Count \<lparr>MinX = 0, MinY = 0, MaxX = 0x8000000000000000, MaxY = 1, Zoom = 0, Tms = False, Layer = ''default''\<rparr>
     = Returns 2
   \<and> RenderMetaTile blank_renderer
       \<lparr>MinX = 0, MinY = 0, MaxX = 0x8000000000000000, MaxY = 1, Zoom = 0, Tms = False, Layer = ''default''\<rparr>
     = Returns (Inr [])
   \<and> processRequestMeta blank_renderer
       \<lparr>MinX = 0, MinY = 0, MaxX = 0x8000000000000000, MaxY = 1, Zoom = 0, Tms = False, Layer = ''default''\<rparr>
     = ([], Some (ResultCountMismatch 0 2))"
proof -
  let ?c = "\<lparr>MinX = 0, MinY = 0, MaxX = 0x8000000000000000, MaxY = 1, Zoom = 0, Tms = False, Layer = ''default''\<rparr>"
  have c: "Count ?c = Returns 2"
    by (simp add: Count_def XSize_def YSize_def)
  have r: "RenderMetaTile blank_renderer ?c = Returns (Inr [])"
    by (simp add: RenderMetaTile_def setTMS_meta_def XSize_def YSize_def blank_renderer_def
        go_int_def loop_x.simps)
  have "processRequestMeta blank_renderer ?c = ([], Some (ResultCountMismatch (int (length ([] :: TileFetchResult list))) 2))"
    by (rule processRequestMeta_count_mismatch [OF c r]) simp_all
  with c r show ?thesis
    by simp
qed

section \<open>The cache: fetch\<close>

lemma fetch_error:
  "Error (fst (TileDb_fetch r db)) =
     (case fst (next_driver_error db) of Some ErrNoRows \<Rightarrow> None | e \<Rightarrow> e)"
  by (simp add: TileDb_fetch_def query_tile_data_def Let_def
      split: prod.splits option.splits list.splits error.splits)

text \<open>
  C3 (as amended). For every cache fetch of a coordinate whose tile record exists but
  whose referenced blob row is absent, and whose query does not fail in the database
  driver, the returned TileFetchResult is a plain miss: no bytes and no error. The
  fetch has no integrity check: in every fetch the error field is set exactly when the
  driver reports an error other than \<^verbatim>\<open>sql.ErrNoRows\<close>.
\<close>

theorem fetch_missing_blob_is_miss:
  assumes "fst (next_driver_error db) = None"
    and "c = setTMS True (TileFetchRequest.Coord r)"
    and "l = (if TileCoord.Layer c = [] then ''default'' else TileCoord.Layer c)"
    and "map_of (layers db) l = Some layer_id"
    and "layered_tiles db (layer_id, TileCoord.Zoom c, X c, Y c) = Some checksum"
    and "checksum \<notin> set (map fst (tile_blobs db))"
  shows "fst (TileDb_fetch r db) = \<lparr>TileFetchResult.Coord = c, BlobPNG = None, Error = None\<rparr>
    \<and> (\<forall>r' db'. Error (fst (TileDb_fetch r' db')) =
          (case fst (next_driver_error db') of Some ErrNoRows \<Rightarrow> None | e \<Rightarrow> e))"
proof -
  obtain db' where n: "next_driver_error db = (None, db')"
    using assms(1) by (cases "next_driver_error db") simp
  then have same: "layers db' = layers db" "layered_tiles db' = layered_tiles db"
    "tile_blobs db' = tile_blobs db"
    by (auto simp add: next_driver_error_def split: list.splits)
  have "filter (\<lambda>row. fst row = checksum) (tile_blobs db) = []"
    using assms(6) by (auto simp add: filter_empty_conv)
  then have "query_tile_data (TileCoord.Zoom c) (X c) (Y c) l db = (Some ErrNoRows, None, db')"
    by (simp add: query_tile_data_def n same assms(4,5))
  then have "fst (TileDb_fetch r db) = \<lparr>TileFetchResult.Coord = c, BlobPNG = None, Error = None\<rparr>"
    unfolding TileDb_fetch_def Let_def assms(2) [symmetric] assms(3) [symmetric]
    by simp
  then show ?thesis
    by (simp add: fetch_error)
qed

text \<open>
  The request for column 0, row 0 at zoom 1 in the XYZ scheme reads row 1 of the example
  database, whose checksum has no blob, and is answered as a miss.
\<close>

theorem fetch_missing_blob_is_miss_witness:
  "fst (TileDb_fetch
      \<lparr>TileFetchRequest.Coord = \<lparr>X = 0, Y = 0, Zoom = 1, Tms = False, Layer = ''''\<rparr>, OutChan = 0\<rparr>
      dangling_TileDb)
   = \<lparr>TileFetchResult.Coord = \<lparr>X = 0, Y = 1, Zoom = 1, Tms = True, Layer = ''''\<rparr>,
      BlobPNG = None, Error = None\<rparr>"
  using fetch_missing_blob_is_miss
    [of dangling_TileDb "\<lparr>X = 0, Y = 1, Zoom = 1, Tms = True, Layer = ''''\<rparr>"
      "\<lparr>TileFetchRequest.Coord = \<lparr>X = 0, Y = 0, Zoom = 1, Tms = False, Layer = ''''\<rparr>, OutChan = 0\<rparr>"
      "''default''" 1 "''c0ffee''"]
  by (simp add: dangling_TileDb_def new_TileDb_def next_driver_error_def setTMS_def shl1_def)

text \<open>
  The claim fails at this input: the layer and the tile record exist, no blob row has the
  record's checksum, and the result carries no error.
\<close>

theorem fetch_integrity_counterexample:
  "map_of (layers dangling_TileDb) ''default'' = Some 1
   \<and> layered_tiles dangling_TileDb (1, 1, 0, 1) = Some ''c0ffee''
   \<and> filter (\<lambda>row. fst row = ''c0ffee'') (tile_blobs dangling_TileDb) = []
   \<and> setTMS True \<lparr>X = 0, Y = 0, Zoom = 1, Tms = False, Layer = ''default''\<rparr>
     = \<lparr>X = 0, Y = 1, Zoom = 1, Tms = True, Layer = ''default''\<rparr>
   \<and> Error (fst (TileDb_fetch
        \<lparr>TileFetchRequest.Coord = \<lparr>X = 0, Y = 0, Zoom = 1, Tms = False, Layer = ''default''\<rparr>, OutChan = 0\<rparr>
        dangling_TileDb)) = None
   \<and> BlobPNG (fst (TileDb_fetch
        \<lparr>TileFetchRequest.Coord = \<lparr>X = 0, Y = 0, Zoom = 1, Tms = False, Layer = ''default''\<rparr>, OutChan = 0\<rparr>
        dangling_TileDb)) = None"
  by (simp add: TileDb_fetch_def query_tile_data_def dangling_TileDb_def new_TileDb_def
      next_driver_error_def setTMS_def shl1_def Let_def)

section \<open>The cache: coordinate convention\<close>

lemma setTMS_True_idem: "setTMS True (setTMS True c) = setTMS True c"
  by (simp add: setTMS_def)

lemma setTMS_True_xyz:
  "\<not> TileCoord.Tms c \<Longrightarrow>
     setTMS True c = c\<lparr>Y := 2 ^ unat (TileCoord.Zoom c) - Y c - 1, TileCoord.Tms := True\<rparr>"
  by (simp add: setTMS_def shl1_pow)

lemma next_driver_error_none:
  "driver_errors db = [] \<Longrightarrow> next_driver_error db = (None, db)"
  by (simp add: next_driver_error_def)

lemma ensureLayer_known:
  "layerIds db l = Some layer_id \<Longrightarrow> ensureLayer l db = Done db"
  by (simp add: ensureLayer_def)

lemma insert_known_layer:
  assumes "driver_errors db = []"
    and "c = setTMS True (TileFetchResult.Coord i)"
    and "l = (if TileCoord.Layer c = [] then ''default'' else TileCoord.Layer c)"
    and "layerIds db l = Some layer_id"
    and "s = md5hex (blob_bytes (BlobPNG i))"
  shows "TileDb_insert md5hex i db =
     Done (db\<lparr>tile_blobs := (if s \<in> set (map fst (tile_blobs db)) then tile_blobs db
                                else tile_blobs db @ [(s, BlobPNG i)]),
               layered_tiles := (layered_tiles db)((layer_id, TileCoord.Zoom c, X c, Y c) \<mapsto> s)\<rparr>)"
proof -
  have tail: "insert_tile_record l (TileCoord.Zoom c) (X c) (Y c) s db' =
      Done (db'\<lparr>layered_tiles := (layered_tiles db')((layer_id, TileCoord.Zoom c, X c, Y c) \<mapsto> s)\<rparr>)"
    if "driver_errors db' = []" "layerIds db' l = Some layer_id" for db'
    using that
    by (simp add: insert_tile_record_def ensureLayer_known exec_replace_tile_def
        next_driver_error_none layerId_def)
  show ?thesis
  proof (cases "s \<in> set (map fst (tile_blobs db))")
    case True
    then have "query_blob_exists s db = (None, db)"
      by (simp add: query_blob_exists_def next_driver_error_none assms(1))
    with True show ?thesis
      unfolding TileDb_insert_def Let_def assms(2) [symmetric] assms(3) [symmetric] assms(5) [symmetric]
      by (simp add: tail assms(1,4))
  next
    case False
    then have "query_blob_exists s db = (Some ErrNoRows, db)"
      by (simp add: query_blob_exists_def next_driver_error_none assms(1))
    with False show ?thesis
      unfolding TileDb_insert_def Let_def assms(2) [symmetric] assms(3) [symmetric] assms(5) [symmetric]
      by (simp add: tail assms(1,4) exec_replace_blob_def next_driver_error_none)
  qed
qed

lemma fetch_coord: "TileFetchResult.Coord (fst (TileDb_fetch r db)) = setTMS True (TileFetchRequest.Coord r)"
  by (simp add: TileDb_fetch_def Let_def split: prod.splits)

lemma fetch_converted:
  "TileDb_fetch r db =
     TileDb_fetch (r\<lparr>TileFetchRequest.Coord := setTMS True (TileFetchRequest.Coord r)\<rparr>) db"
  by (simp add: TileDb_fetch_def setTMS_True_idem)

lemma insert_converted:
  "TileDb_insert md5hex i db =
     TileDb_insert md5hex (i\<lparr>TileFetchResult.Coord := setTMS True (TileFetchResult.Coord i)\<rparr>) db"
  by (simp add: TileDb_insert_def setTMS_True_idem Let_def split: prod.splits)

lemma fetch_no_record:
  assumes "driver_errors db = []"
    and "c = setTMS True (TileFetchRequest.Coord r)"
    and "l = (if TileCoord.Layer c = [] then ''default'' else TileCoord.Layer c)"
    and "map_of (layers db) l = Some layer_id"
    and "layered_tiles db (layer_id, TileCoord.Zoom c, X c, Y c) = None"
  shows "BlobPNG (fst (TileDb_fetch r db)) = None"
proof -
  have "query_tile_data (TileCoord.Zoom c) (X c) (Y c) l db = (Some ErrNoRows, None, db)"
    by (simp add: query_tile_data_def next_driver_error_none assms(1,4,5))
  then show ?thesis
    unfolding TileDb_fetch_def Let_def assms(2) [symmetric] assms(3) [symmetric]
    by simp
qed

text \<open>
  C4 (as amended). Every cache fetch and insert converts its copy of the coordinate to
  the TMS row convention before touching storage: the result of either is that of the
  same call on the converted coordinate; for an XYZ input with a known layer, an insert
  that meets no driver error writes the tile record at row \<open>2 ^ Zoom - Y - 1\<close> (in 64-bit
  arithmetic), and a fetch is a miss when no record is stored at that row. Neither
  toggles back: the \<open>Coord\<close> field of the TileFetchResult a fetch delivers on the reply
  channel is the converted coordinate, which for an XYZ request has the scheme flag set
  and the row \<open>2 ^ Zoom - Y - 1\<close>.
\<close>

theorem cache_converts_to_TMS:
  "TileFetchResult.Coord (fst (TileDb_fetch r db)) = setTMS True (TileFetchRequest.Coord r)
   \<and> TileDb_fetch r db =
       TileDb_fetch (r\<lparr>TileFetchRequest.Coord := setTMS True (TileFetchRequest.Coord r)\<rparr>) db
   \<and> TileDb_insert md5hex i db =
       TileDb_insert md5hex (i\<lparr>TileFetchResult.Coord := setTMS True (TileFetchResult.Coord i)\<rparr>) db
   \<and> (\<not> TileCoord.Tms (TileFetchRequest.Coord r) \<longrightarrow>
        TileFetchResult.Coord (fst (TileDb_fetch r db)) =
          (TileFetchRequest.Coord r)
            \<lparr>Y := 2 ^ unat (TileCoord.Zoom (TileFetchRequest.Coord r)) - Y (TileFetchRequest.Coord r) - 1,
             TileCoord.Tms := True\<rparr>)
   \<and> (\<not> TileCoord.Tms (TileFetchRequest.Coord r) \<and> driver_errors db = []
        \<and> map_of (layers db)
            (if TileCoord.Layer (TileFetchRequest.Coord r) = [] then ''default''
             else TileCoord.Layer (TileFetchRequest.Coord r)) = Some layer_id
        \<and> layered_tiles db
            (layer_id, TileCoord.Zoom (TileFetchRequest.Coord r), X (TileFetchRequest.Coord r),
             2 ^ unat (TileCoord.Zoom (TileFetchRequest.Coord r)) - Y (TileFetchRequest.Coord r) - 1) = None
        \<longrightarrow> BlobPNG (fst (TileDb_fetch r db)) = None)
   \<and> (\<not> TileCoord.Tms (TileFetchResult.Coord i) \<and> driver_errors db = []
        \<and> layerIds db
            (if TileCoord.Layer (TileFetchResult.Coord i) = [] then ''default''
             else TileCoord.Layer (TileFetchResult.Coord i)) = Some layer_id
        \<longrightarrow> (\<exists>db'. TileDb_insert md5hex i db = Done db'
              \<and> layered_tiles db' =
                  (layered_tiles db)
                    ((layer_id, TileCoord.Zoom (TileFetchResult.Coord i), X (TileFetchResult.Coord i),
                      2 ^ unat (TileCoord.Zoom (TileFetchResult.Coord i)) - Y (TileFetchResult.Coord i) - 1)
                     \<mapsto> md5hex (blob_bytes (BlobPNG i)))))"
proof -
  have result_xyz: "TileFetchResult.Coord (fst (TileDb_fetch r db)) =
          (TileFetchRequest.Coord r)
            \<lparr>Y := 2 ^ unat (TileCoord.Zoom (TileFetchRequest.Coord r)) - Y (TileFetchRequest.Coord r) - 1,
             TileCoord.Tms := True\<rparr>"
    if "\<not> TileCoord.Tms (TileFetchRequest.Coord r)"
    using that by (simp add: fetch_coord setTMS_True_xyz)
  have read_row: "BlobPNG (fst (TileDb_fetch r db)) = None"
    if "\<not> TileCoord.Tms (TileFetchRequest.Coord r)" "driver_errors db = []"
      and "map_of (layers db)
            (if TileCoord.Layer (TileFetchRequest.Coord r) = [] then ''default''
             else TileCoord.Layer (TileFetchRequest.Coord r)) = Some layer_id"
      and "layered_tiles db
            (layer_id, TileCoord.Zoom (TileFetchRequest.Coord r), X (TileFetchRequest.Coord r),
             2 ^ unat (TileCoord.Zoom (TileFetchRequest.Coord r)) - Y (TileFetchRequest.Coord r) - 1) = None"
    using that
    by (intro fetch_no_record [where layer_id = layer_id, OF _ refl refl])
      (auto simp add: setTMS_True_xyz split: if_splits)
  have written_row: "\<exists>db'. TileDb_insert md5hex i db = Done db'
              \<and> layered_tiles db' =
                  (layered_tiles db)
                    ((layer_id, TileCoord.Zoom (TileFetchResult.Coord i), X (TileFetchResult.Coord i),
                      2 ^ unat (TileCoord.Zoom (TileFetchResult.Coord i)) - Y (TileFetchResult.Coord i) - 1)
                     \<mapsto> md5hex (blob_bytes (BlobPNG i)))"
    if "\<not> TileCoord.Tms (TileFetchResult.Coord i)" "driver_errors db = []"
      and "layerIds db
            (if TileCoord.Layer (TileFetchResult.Coord i) = [] then ''default''
             else TileCoord.Layer (TileFetchResult.Coord i)) = Some layer_id"
  proof -
    have "TileDb_insert md5hex i db =
        Done (db\<lparr>tile_blobs :=
                   (if md5hex (blob_bytes (BlobPNG i)) \<in> set (map fst (tile_blobs db)) then tile_blobs db
                    else tile_blobs db @ [(md5hex (blob_bytes (BlobPNG i)), BlobPNG i)]),
                 layered_tiles := (layered_tiles db)
                   ((layer_id, TileCoord.Zoom (setTMS True (TileFetchResult.Coord i)),
                     X (setTMS True (TileFetchResult.Coord i)), Y (setTMS True (TileFetchResult.Coord i)))
                    \<mapsto> md5hex (blob_bytes (BlobPNG i)))\<rparr>)"
      using that
      by (intro insert_known_layer [where layer_id = layer_id, OF _ refl refl _ refl])
        (auto simp add: setTMS_True_xyz split: if_splits)
    with that(1) show ?thesis
      by (simp add: setTMS_True_xyz)
  qed
  from fetch_coord fetch_converted insert_converted result_xyz read_row written_row
  show ?thesis
    by blast
qed

text \<open>
  At zoom 1, a fetch and an insert for column 0, row 0 in the XYZ scheme on a new
  database: the fetch answers with the coordinate of row 1 in the TMS scheme, the insert
  writes the tile record of row 1.
\<close>

theorem cache_converts_to_TMS_witness:
  "\<not> TileCoord.Tms \<lparr>X = 0, Y = 0, Zoom = 1, Tms = False, Layer = ''''\<rparr>
   \<and> driver_errors new_TileDb = []
   \<and> layerIds new_TileDb ''default'' = Some 1
   \<and> map_of (layers new_TileDb) ''default'' = Some 1
   \<and> layered_tiles new_TileDb (1, 1, 0, 1) = None
   \<and> fst (TileDb_fetch
        \<lparr>TileFetchRequest.Coord = \<lparr>X = 0, Y = 0, Zoom = 1, Tms = False, Layer = ''''\<rparr>, OutChan = 0\<rparr>
        new_TileDb)
     = \<lparr>TileFetchResult.Coord = \<lparr>X = 0, Y = 1, Zoom = 1, Tms = True, Layer = ''''\<rparr>,
        BlobPNG = None, Error = None\<rparr>
   \<and> TileDb_insert toy_md5hex
        \<lparr>TileFetchResult.Coord = \<lparr>X = 0, Y = 0, Zoom = 1, Tms = False, Layer = ''''\<rparr>,
         BlobPNG = Some [0x89, 0x50], Error = None\<rparr>
        new_TileDb
     = Done (new_TileDb\<lparr>tile_blobs := [(''8950'', Some [0x89, 0x50])],
                        layered_tiles := [(1, 1, 0, 1) \<mapsto> ''8950'']\<rparr>)"
proof -
  let ?c = "\<lparr>X = 0, Y = 0, Zoom = 1, Tms = False, Layer = ''''\<rparr>"
  let ?r = "\<lparr>TileFetchRequest.Coord = ?c, OutChan = 0\<rparr>"
  let ?i = "\<lparr>TileFetchResult.Coord = ?c, BlobPNG = Some [0x89, 0x50], Error = None\<rparr>"
  have f: "fst (TileDb_fetch ?r new_TileDb)
     = \<lparr>TileFetchResult.Coord = \<lparr>X = 0, Y = 1, Zoom = 1, Tms = True, Layer = ''''\<rparr>,
        BlobPNG = None, Error = None\<rparr>"
    by (simp add: TileDb_fetch_def query_tile_data_def new_TileDb_def next_driver_error_def
        setTMS_def shl1_def Let_def)
  have i: "TileDb_insert toy_md5hex ?i new_TileDb
     = Done (new_TileDb\<lparr>tile_blobs := [(''8950'', Some [0x89, 0x50])],
                        layered_tiles := [(1, 1, 0, 1) \<mapsto> ''8950'']\<rparr>)"
    by (simp add: TileDb_insert_def insert_tile_record_def ensureLayer_def query_blob_exists_def
        exec_replace_blob_def exec_replace_tile_def layerId_def blob_bytes_def toy_md5hex_def
        new_TileDb_def next_driver_error_def setTMS_def shl1_def Let_def)
  show ?thesis
    using cache_converts_to_TMS [of ?r new_TileDb toy_md5hex ?i 1] f i
    by (simp add: new_TileDb_def)
qed

text \<open>
  The coordinate a fetch delivers is not in the caller's scheme: the request is for row 0
  in the XYZ scheme, the result names row 1 in the TMS scheme.
\<close>

theorem fetch_result_coord_counterexample:
  "TileCoord.Tms (TileFetchRequest.Coord
      \<lparr>TileFetchRequest.Coord = \<lparr>X = 0, Y = 0, Zoom = 1, Tms = False, Layer = ''default''\<rparr>, OutChan = 0\<rparr>)
     = False
   \<and> TileFetchResult.Coord (fst (TileDb_fetch
        \<lparr>TileFetchRequest.Coord = \<lparr>X = 0, Y = 0, Zoom = 1, Tms = False, Layer = ''default''\<rparr>, OutChan = 0\<rparr>
        new_TileDb))
     = \<lparr>X = 0, Y = 1, Zoom = 1, Tms = True, Layer = ''default''\<rparr>
   \<and> TileFetchResult.Coord (fst (TileDb_fetch
        \<lparr>TileFetchRequest.Coord = \<lparr>X = 0, Y = 0, Zoom = 1, Tms = False, Layer = ''default''\<rparr>, OutChan = 0\<rparr>
        new_TileDb))
     \<noteq> \<lparr>X = 0, Y = 0, Zoom = 1, Tms = False, Layer = ''default''\<rparr>"
  by (simp add: TileDb_fetch_def query_tile_data_def new_TileDb_def next_driver_error_def
      setTMS_def shl1_def Let_def)

section \<open>The cache: insert\<close>

text \<open>
  Two single inserts of the same content: the second finds the checksum in
  \<^verbatim>\<open>tile_blobs\<close> and adds no row. Inserting a result again changes nothing (for a
  layer already known, with no driver error).
\<close>

lemma two_inserts_one_blob:
  "(case TileDb_insert md5hex
      \<lparr>TileFetchResult.Coord = \<lparr>X = 0, Y = 0, Zoom = 1, Tms = False, Layer = ''default''\<rparr>,
       BlobPNG = Some [0x89, 0x50], Error = None\<rparr> new_TileDb of
      Fatal e \<Rightarrow> Fatal e
    | Done db \<Rightarrow>
        TileDb_insert md5hex
          \<lparr>TileFetchResult.Coord = \<lparr>X = 1, Y = 0, Zoom = 1, Tms = False, Layer = ''default''\<rparr>,
           BlobPNG = Some [0x89, 0x50], Error = None\<rparr> db)
   = Done
      (new_TileDb
        \<lparr>tile_blobs := [(md5hex [0x89, 0x50], Some [0x89, 0x50])],
         layered_tiles := [(1, 1, 0, 1) \<mapsto> md5hex [0x89, 0x50], (1, 1, 1, 1) \<mapsto> md5hex [0x89, 0x50]]\<rparr>)"
  by (simp add: TileDb_insert_def insert_tile_record_def ensureLayer_def query_blob_exists_def
      exec_replace_blob_def exec_replace_tile_def layerId_def blob_bytes_def
      new_TileDb_def next_driver_error_def setTMS_def shl1_def Let_def)

lemma insert_idempotent:
  assumes "driver_errors db = []"
    and "layerIds db
          (if TileCoord.Layer (setTMS True (TileFetchResult.Coord i)) = [] then ''default''
           else TileCoord.Layer (setTMS True (TileFetchResult.Coord i))) = Some layer_id"
    and "TileDb_insert md5hex i db = Done db1"
  shows "TileDb_insert md5hex i db1 = Done db1"
proof -
  let ?c = "setTMS True (TileFetchResult.Coord i)"
  let ?l = "if TileCoord.Layer ?c = [] then ''default'' else TileCoord.Layer ?c"
  let ?s = "md5hex (blob_bytes (BlobPNG i))"
  let ?k = "(layer_id, TileCoord.Zoom ?c, X ?c, Y ?c)"
  have first: "TileDb_insert md5hex i db =
     Done (db\<lparr>tile_blobs := (if ?s \<in> set (map fst (tile_blobs db)) then tile_blobs db
                                else tile_blobs db @ [(?s, BlobPNG i)]),
               layered_tiles := (layered_tiles db)(?k \<mapsto> ?s)\<rparr>)"
    by (rule insert_known_layer [OF assms(1) refl refl assms(2) refl])
  with assms(3) have db1: "db1 = db\<lparr>tile_blobs := (if ?s \<in> set (map fst (tile_blobs db)) then tile_blobs db
                                else tile_blobs db @ [(?s, BlobPNG i)]),
               layered_tiles := (layered_tiles db)(?k \<mapsto> ?s)\<rparr>"
    by simp
  have e: "driver_errors db1 = []" and l: "layerIds db1 ?l = Some layer_id"
    and b: "?s \<in> set (map fst (tile_blobs db1))"
    and t: "(layered_tiles db1)(?k \<mapsto> ?s) = layered_tiles db1"
    using assms(1,2) by (simp_all add: db1)
  have "TileDb_insert md5hex i db1 =
     Done (db1\<lparr>tile_blobs := (if ?s \<in> set (map fst (tile_blobs db1)) then tile_blobs db1
                                else tile_blobs db1 @ [(?s, BlobPNG i)]),
               layered_tiles := (layered_tiles db1)(?k \<mapsto> ?s)\<rparr>)"
    by (rule insert_known_layer [OF e refl refl l refl])
  with b t show ?thesis
    by simp
qed

text \<open>
  C5. The claim asks that two results with byte-identical content inserted within one
  \<^verbatim>\<open>BatchInsert\<close> leave exactly one blob row. The code leaves two: every goroutine of
  the batch looks for the checksum before any blob of the batch is written, so both
  results are put on the list of new blobs, and \<^verbatim>\<open>tile_blobs\<close> has no key under which
  \<^verbatim>\<open>REPLACE\<close> could merge them. The batch of two tiles with the same two bytes, on a
  new database:
\<close>

theorem BatchInsert_duplicates_blob:
  "TileDb_BatchInsert md5hex
     [\<lparr>TileFetchResult.Coord = \<lparr>X = 0, Y = 0, Zoom = 1, Tms = False, Layer = ''default''\<rparr>,
       BlobPNG = Some [0x89, 0x50], Error = None\<rparr>,
      \<lparr>TileFetchResult.Coord = \<lparr>X = 1, Y = 0, Zoom = 1, Tms = False, Layer = ''default''\<rparr>,
       BlobPNG = Some [0x89, 0x50], Error = None\<rparr>]
     new_TileDb
   = Done
      ([\<lparr>TileFetchResult.Coord = \<lparr>X = 0, Y = 1, Zoom = 1, Tms = True, Layer = ''default''\<rparr>,
         BlobPNG = Some [0x89, 0x50], Error = None\<rparr>,
        \<lparr>TileFetchResult.Coord = \<lparr>X = 1, Y = 1, Zoom = 1, Tms = True, Layer = ''default''\<rparr>,
         BlobPNG = Some [0x89, 0x50], Error = None\<rparr>],
       new_TileDb
        \<lparr>tile_blobs := [(md5hex [0x89, 0x50], Some [0x89, 0x50]), (md5hex [0x89, 0x50], Some [0x89, 0x50])],
         layered_tiles := [(1, 1, 0, 1) \<mapsto> md5hex [0x89, 0x50], (1, 1, 1, 1) \<mapsto> md5hex [0x89, 0x50]]\<rparr>)"
  by (simp add: TileDb_BatchInsert_def batch_item_def batch_tiles_def ensureLayer_def
      query_blob_exists_def prepare_rows_def exec_replace_blobs_def exec_replace_tiles_def
      layerId_def blob_bytes_def new_TileDb_def next_driver_error_def setTMS_def shl1_def Let_def)

end
